theory Spec2Isabelle
  imports Complex_Main "HOL-Library.Char_ord" "HOL-Library.List_Lexorder"
    "HOL-Library.Product_Lexorder"
begin

section \<open>Values exchanged with the libraries\<close>

text \<open>
  The server (\<^verbatim>\<open>src/vnstock_mcp/server.py\<close>) is a set of tool functions. Each one calls
  the market-data library, pandas and the portfolio library inside a \<^verbatim>\<open>try\<close> block and
  returns a string. The libraries are not part of the repository, so they are parameters
  of the model: a record of functions, each returning either the exception it raised
  (\<open>Inl\<close>) or its value (\<open>Inr\<close>). Python floats are modelled as reals.
\<close>

text \<open>Exceptions: \<^verbatim>\<open>pypfopt.exceptions.OptimizationError\<close>, which the portfolio tools catch by
  name, and every other subclass of \<^verbatim>\<open>Exception\<close>. The string is \<^verbatim>\<open>str(e)\<close>.\<close>

datatype exn = OptimizationError string | Exception string

fun str :: "exn \<Rightarrow> string" where
  "str (OptimizationError m) = m"
| "str (Exception m) = m"

text \<open>A cell of a DataFrame: a number, a text, or a missing value (\<^verbatim>\<open>NaN\<close>/\<^verbatim>\<open>None\<close>).\<close>

datatype cell = Num real | Str string | Null

text \<open>A DataFrame without its row index: column labels and rows of cells.\<close>

record dataframe =
  columns :: "string list"
  rows :: "cell list list"

text \<open>\<^verbatim>\<open>df.empty\<close>: some axis has length zero.\<close>

definition empty :: "dataframe \<Rightarrow> bool" where
  "empty df = (columns df = [] \<or> rows df = [])"

text \<open>A JSON record: the column labels of one row with its cells.\<close>

type_synonym json_record = "(string \<times> cell) list"

record returns_report =
  rr_symbols :: "string list"
  rr_start_date :: string
  rr_end_date :: string
  rr_method :: string
  rr_log_returns :: bool
  rr_expected_returns :: "(string \<times> real) list"
  rr_frequency :: nat
  rr_compounding :: bool

record performance_metrics =
  expected_annual_return :: real
  annual_volatility :: real
  sharpe_ratio :: real

record portfolio_report =
  pr_symbols :: "string list"
  pr_start_date :: string
  pr_end_date :: string
  pr_optimization_type :: string
  pr_risk_free_rate :: real
  pr_covariance_method :: string
  pr_log_returns :: bool
  pr_optimal_weights :: "(string \<times> real) list"
  pr_performance_metrics :: performance_metrics

text \<open>One entry of \<^verbatim>\<open>optimizations\<close> in \<^verbatim>\<open>full_portfolio_optimization\<close>: the dictionary
  with \<^verbatim>\<open>"success": True\<close> or the one with \<^verbatim>\<open>"success": False\<close>.\<close>

datatype portfolio_entry =
  Succeeded "(string \<times> real) list" real real real string
  | Failed string

fun success :: "portfolio_entry \<Rightarrow> bool" where
  "success (Succeeded w r v s t) = True"
| "success (Failed m) = False"

record full_report =
  fr_symbols :: "string list"
  fr_start_date :: string
  fr_end_date :: string
  fr_risk_free_rate :: real
  fr_risk_aversion :: real
  fr_covariance_method :: string
  fr_log_returns :: bool
  fr_optimized_portfolios :: "(string \<times> portfolio_entry) list"
  fr_total_portfolios :: nat
  fr_successful_optimizations :: "string list"

text \<open>What a tool returns: a plain text, or a JSON document, kept structured here
  (\<^verbatim>\<open>df.to_json(orient="records")\<close> is an array of records, \<^verbatim>\<open>json.dumps(...)\<close> an
  object).\<close>

datatype reply =
  Message string
  | Records "json_record list"
  | Returns_json returns_report
  | Portfolio_json portfolio_report
  | Full_json full_report

text \<open>\<^verbatim>\<open>df.to_json(orient="records", ...)\<close>: pandas refuses a frame with a repeated
  column label (\<^verbatim>\<open>ValueError\<close>).\<close>

definition to_json :: "dataframe \<Rightarrow> exn + reply" where
  "to_json df =
     (if distinct (columns df) then Inr (Records (map (zip (columns df)) (rows df)))
      else Inl (Exception (''DataFrame columns must be unique for orient='' @ [CHR 0x27]
                             @ ''records'' @ [CHR 0x27] @ ''.'')))"

section \<open>Python helpers\<close>

text \<open>\<^verbatim>\<open>str.upper()\<close>. A HOL character is one byte, and the model maps the ASCII letters,
  the alphabet of the tickers and fund names the tools are documented for. Python also
  maps letters outside ASCII (an accented letter to its capital, the German sharp s to
  \<^verbatim>\<open>SS\<close>); the model leaves those characters as they are. The properties below use of
  \<open>upper\<close> only that applying it twice is applying it once, which holds of Python's
  function as well.\<close>

definition upper_char :: "char \<Rightarrow> char" where
  "upper_char c =
     (case map_of (zip ''abcdefghijklmnopqrstuvwxyz'' ''ABCDEFGHIJKLMNOPQRSTUVWXYZ'') c of
        Some u \<Rightarrow> u
      | None \<Rightarrow> c)"

definition upper :: "string \<Rightarrow> string" where
  "upper s = map upper_char s"

text \<open>\<^verbatim>\<open>round(x, n)\<close>: to the nearest multiple of \<open>10\<^sup>-\<^sup>n\<close>, a tie going to the even one.\<close>

definition py_round :: "real \<Rightarrow> nat \<Rightarrow> real" where
  "py_round x n =
     (let y = x * 10 ^ n; f = \<lfloor>y\<rfloor>; d = y - of_int f
      in of_int (if d < 1 / 2 then f else if 1 / 2 < d then f + 1
                 else if even f then f else f + 1) / 10 ^ n)"

text \<open>Sequencing inside a \<^verbatim>\<open>try\<close> block: the first exception ends the block.\<close>

definition and_then :: "exn + 'a \<Rightarrow> ('a \<Rightarrow> exn + 'b) \<Rightarrow> exn + 'b" where
  "and_then r f = (case r of Inl e \<Rightarrow> Inl e | Inr v \<Rightarrow> f v)"

text \<open>\<^verbatim>\<open>except Exception as e: return f"<prefix>{str(e)}"\<close> around a block.\<close>

definition except_as :: "string \<Rightarrow> exn + reply \<Rightarrow> reply" where
  "except_as prefix r = (case r of Inl e \<Rightarrow> Message (prefix @ str e) | Inr out \<Rightarrow> out)"

text \<open>\<^verbatim>\<open>if df is None or df.empty: return <msg>\<close>, then \<^verbatim>\<open>return df.to_json(...)\<close>.\<close>

definition records_or :: "string \<Rightarrow> dataframe option \<Rightarrow> exn + reply" where
  "records_or msg df =
     (case df of
        None \<Rightarrow> Inr (Message msg)
      | Some d \<Rightarrow> if empty d then Inr (Message msg) else to_json d)"

section \<open>The market-data library\<close>

text \<open>
  The calls the tools make into vnstock. \<open>'h\<close> is the handle that
  \<^verbatim>\<open>Vnstock().stock(symbol=..., source=...)\<close> returns; \<^verbatim>\<open>stock.finance\<close> and
  \<^verbatim>\<open>stock.company\<close> are read from it. The history functions stand for the constructor
  and the \<^verbatim>\<open>history\<close> call together (symbol, source, start, end, interval): the tools
  make both inside one \<^verbatim>\<open>try\<close> with nothing in between. A result \<open>None\<close> is Python's
  \<^verbatim>\<open>None\<close>.
\<close>

record 'h vnstock =
  quote_history :: "string \<Rightarrow> string \<Rightarrow> string \<Rightarrow> string \<Rightarrow> string \<Rightarrow> exn + dataframe option"
  fx_history :: "string \<Rightarrow> string \<Rightarrow> string \<Rightarrow> string \<Rightarrow> string \<Rightarrow> exn + dataframe option"
  crypto_history :: "string \<Rightarrow> string \<Rightarrow> string \<Rightarrow> string \<Rightarrow> string \<Rightarrow> exn + dataframe option"
  world_index_history :: "string \<Rightarrow> string \<Rightarrow> string \<Rightarrow> string \<Rightarrow> string \<Rightarrow> exn + dataframe option"
  stock :: "string \<Rightarrow> string \<Rightarrow> exn + 'h"
  income_statement :: "'h \<Rightarrow> string \<Rightarrow> string \<Rightarrow> exn + dataframe option"
  balance_sheet :: "'h \<Rightarrow> string \<Rightarrow> string \<Rightarrow> exn + dataframe option"
  cash_flow :: "'h \<Rightarrow> string \<Rightarrow> string \<Rightarrow> exn + dataframe option"
  ratio :: "'h \<Rightarrow> string \<Rightarrow> string \<Rightarrow> exn + dataframe option"
  flatten_hierarchical_index :: "dataframe \<Rightarrow> exn + dataframe"
  dividends :: "'h \<Rightarrow> exn + dataframe option"
  overview :: "'h \<Rightarrow> exn + dataframe option"
  shareholders :: "'h \<Rightarrow> exn + dataframe option"
  officers :: "'h \<Rightarrow> string \<Rightarrow> exn + dataframe option"
  subsidiaries :: "'h \<Rightarrow> string \<Rightarrow> exn + dataframe option"
  events :: "'h \<Rightarrow> exn + dataframe option"
  news :: "'h \<Rightarrow> exn + dataframe option"
  reports :: "'h \<Rightarrow> exn + dataframe option"
  ratio_summary :: "'h \<Rightarrow> exn + dataframe option"
  trading_stats :: "'h \<Rightarrow> exn + dataframe option"
  sjc_gold_price :: "string option \<Rightarrow> exn + dataframe option"
  btmc_goldprice :: "exn + dataframe option"
  vcb_exchange_rate :: "string \<Rightarrow> exn + dataframe option"
  fund_listing :: "string \<Rightarrow> exn + dataframe option"
  fund_filter :: "string \<Rightarrow> exn + dataframe option"
  nav_report :: "string \<Rightarrow> exn + dataframe option"
  top_holding :: "string \<Rightarrow> exn + dataframe option"
  industry_holding :: "string \<Rightarrow> exn + dataframe option"
  asset_holding :: "string \<Rightarrow> exn + dataframe option"

section \<open>History tools\<close>

definition get_stock_history ::
  "'h vnstock \<Rightarrow> string \<Rightarrow> string \<Rightarrow> string \<Rightarrow> string \<Rightarrow> reply" where
  "get_stock_history lib symbol start_date end_date interval =
     except_as ''Error fetching stock data: ''
       (and_then (quote_history lib symbol ''VCI'' start_date end_date interval) (\<lambda>df.
          records_or
                (''No data found for '' @ symbol @ '' between '' @ start_date @ '' and '' @ end_date)
                df))"

definition get_forex_history ::
  "'h vnstock \<Rightarrow> string \<Rightarrow> string \<Rightarrow> string \<Rightarrow> string \<Rightarrow> reply" where
  "get_forex_history lib symbol start_date end_date interval =
     except_as ''Error fetching forex data: ''
       (and_then (fx_history lib symbol ''MSN'' start_date end_date interval) (\<lambda>df.
          records_or
                (''No forex data found for '' @ symbol @ '' between '' @ start_date @ '' and ''
                   @ end_date)
                df))"

definition get_crypto_history ::
  "'h vnstock \<Rightarrow> string \<Rightarrow> string \<Rightarrow> string \<Rightarrow> string \<Rightarrow> reply" where
  "get_crypto_history lib symbol start_date end_date interval =
     except_as ''Error fetching crypto data: ''
       (and_then (crypto_history lib symbol ''MSN'' start_date end_date interval) (\<lambda>df.
          records_or
                (''No crypto data found for '' @ symbol @ '' between '' @ start_date @ '' and ''
                   @ end_date)
                df))"

definition vietnam_indices :: "string list" where
  "vietnam_indices = [''VNINDEX'', ''HNXINDEX'', ''UPCOMINDEX'']"

definition get_index_history ::
  "'h vnstock \<Rightarrow> string \<Rightarrow> string \<Rightarrow> string \<Rightarrow> string \<Rightarrow> reply" where
  "get_index_history lib symbol start_date end_date interval =
     except_as ''Error fetching index data: ''
       (and_then
          (if upper symbol \<in> set vietnam_indices
           then quote_history lib symbol ''VCI'' start_date end_date interval
           else world_index_history lib symbol ''MSN'' start_date end_date interval) (\<lambda>df.
          records_or
                (''No index data found for '' @ symbol @ '' between '' @ start_date @ '' and ''
                   @ end_date)
                df))"

section \<open>Sorting a DataFrame by one column\<close>

text \<open>
  \<^verbatim>\<open>df.sort_values(col)\<close>: a \<^verbatim>\<open>KeyError\<close> when no column has the label, a
  \<^verbatim>\<open>ValueError\<close> when several have it, a \<^verbatim>\<open>TypeError\<close> when the column mixes numbers and
  texts; otherwise the rows in ascending order of the column, missing values last.
  The text of these exceptions is pandas' and only sketched here. Rows with equal keys
  keep their order in the model; pandas' default sort does not promise it.
\<close>

fun cell_key :: "cell \<Rightarrow> nat \<times> real \<times> string" where
  "cell_key (Num x) = (0, x, [])"
| "cell_key (Str s) = (1, 0, s)"
| "cell_key Null = (2, 0, [])"

fun is_num :: "cell \<Rightarrow> bool" where
  "is_num (Num x) = True"
| "is_num c = False"

fun is_str :: "cell \<Rightarrow> bool" where
  "is_str (Str s) = True"
| "is_str c = False"

fun index_of :: "string \<Rightarrow> string list \<Rightarrow> nat option" where
  "index_of c [] = None"
| "index_of c (x # xs) = (if x = c then Some 0 else map_option Suc (index_of c xs))"

definition cell_at :: "nat \<Rightarrow> cell list \<Rightarrow> cell" where
  "cell_at i r = (if i < length r then r ! i else Null)"

definition sort_values :: "string \<Rightarrow> dataframe \<Rightarrow> exn + dataframe" where
  "sort_values col df =
     (case index_of col (columns df) of
        None \<Rightarrow> Inl (Exception ([CHR 0x27] @ col @ [CHR 0x27]))
      | Some i \<Rightarrow>
          if count_list (columns df) col \<noteq> 1
          then Inl (Exception (''The column label '' @ [CHR 0x27] @ col @ [CHR 0x27]
                                 @ '' is not unique.''))
          else if (\<exists>r \<in> set (rows df). is_num (cell_at i r))
                  \<and> (\<exists>r \<in> set (rows df). is_str (cell_at i r))
          then Inl (Exception ([CHR 0x27] @ ''<'' @ [CHR 0x27]
                                 @ '' not supported between instances of str and float''))
          else Inr (df\<lparr>rows := sort_key (\<lambda>r. cell_key (cell_at i r)) (rows df)\<rparr>))"

section \<open>Fundamentals, dividends, gold and exchange rates\<close>

text \<open>The three statement tools differ in the library call and in the texts only.
  \<^verbatim>\<open>reset_index(drop=True)\<close> renumbers the row index, which the model does not keep.\<close>

definition get_income_statement :: "'h vnstock \<Rightarrow> string \<Rightarrow> string \<Rightarrow> reply" where
  "get_income_statement lib symbol lang =
     except_as (''Error fetching income statement for '' @ symbol @ '': '')
       (and_then (stock lib (upper symbol) ''VCI'') (\<lambda>finance.
        and_then (income_statement lib finance ''year'' lang) (\<lambda>df.
          case df of
            None \<Rightarrow> Inr (Message (''No income statement data found for '' @ symbol))
          | Some d \<Rightarrow>
              if empty d then Inr (Message (''No income statement data found for '' @ symbol))
              else and_then (sort_values ''yearReport'' d) (\<lambda>sorted_df.
                     to_json sorted_df))))"

definition get_balance_sheet :: "'h vnstock \<Rightarrow> string \<Rightarrow> string \<Rightarrow> reply" where
  "get_balance_sheet lib symbol lang =
     except_as (''Error fetching balance sheet for '' @ symbol @ '': '')
       (and_then (stock lib (upper symbol) ''VCI'') (\<lambda>finance.
        and_then (balance_sheet lib finance ''year'' lang) (\<lambda>df.
          case df of
            None \<Rightarrow> Inr (Message (''No balance sheet data found for '' @ symbol))
          | Some d \<Rightarrow>
              if empty d then Inr (Message (''No balance sheet data found for '' @ symbol))
              else and_then (sort_values ''yearReport'' d) (\<lambda>sorted_df.
                     to_json sorted_df))))"

definition get_cash_flow :: "'h vnstock \<Rightarrow> string \<Rightarrow> string \<Rightarrow> reply" where
  "get_cash_flow lib symbol lang =
     except_as (''Error fetching cash flow for '' @ symbol @ '': '')
       (and_then (stock lib (upper symbol) ''VCI'') (\<lambda>finance.
        and_then (cash_flow lib finance ''year'' lang) (\<lambda>df.
          case df of
            None \<Rightarrow> Inr (Message (''No cash flow data found for '' @ symbol))
          | Some d \<Rightarrow>
              if empty d then Inr (Message (''No cash flow data found for '' @ symbol))
              else and_then (sort_values ''yearReport'' d) (\<lambda>sorted_df.
                     to_json sorted_df))))"

definition get_financial_ratios :: "'h vnstock \<Rightarrow> string \<Rightarrow> string \<Rightarrow> reply" where
  "get_financial_ratios lib symbol lang =
     except_as (''Error fetching financial ratios for '' @ symbol @ '': '')
       (and_then (stock lib (upper symbol) ''VCI'') (\<lambda>finance.
        and_then (ratio lib finance ''year'' lang) (\<lambda>df.
          case df of
            None \<Rightarrow> Inr (Message (''No financial ratio data found for '' @ symbol))
          | Some d \<Rightarrow>
              if empty d then Inr (Message (''No financial ratio data found for '' @ symbol))
              else and_then (flatten_hierarchical_index lib d) (\<lambda>flattened_df.
                   and_then (if ''yearReport'' \<in> set (columns flattened_df)
                             then sort_values ''yearReport'' flattened_df
                             else Inr flattened_df) (\<lambda>sorted_df.
                     to_json sorted_df)))))"

definition get_dividend_history :: "'h vnstock \<Rightarrow> string \<Rightarrow> reply" where
  "get_dividend_history lib symbol =
     except_as (''Error fetching dividend history for '' @ symbol @ '': '')
       (and_then (stock lib (upper symbol) ''TCBS'') (\<lambda>company.
        and_then (dividends lib company) (\<lambda>df.
          records_or (''No dividend data found for '' @ symbol) df)))"

text \<open>\<^verbatim>\<open>date if date else "current date"\<close>: \<^verbatim>\<open>None\<close> and the empty string are both false.\<close>

definition get_sjc_gold_price :: "'h vnstock \<Rightarrow> string option \<Rightarrow> reply" where
  "get_sjc_gold_price lib date =
     except_as ''Error fetching SJC gold prices: ''
       (and_then (sjc_gold_price lib date) (\<lambda>df.
          records_or
                (''No SJC gold price data found for ''
                   @ (case date of None \<Rightarrow> ''current date''
                      | Some d \<Rightarrow> if d = [] then ''current date'' else d))
                df))"

definition get_btmc_gold_price :: "'h vnstock \<Rightarrow> reply" where
  "get_btmc_gold_price lib =
     except_as ''Error fetching BTMC gold prices: ''
       (and_then (btmc_goldprice lib) (\<lambda>df.
          records_or ''No BTMC gold price data found'' df))"

definition get_vcb_exchange_rate :: "'h vnstock \<Rightarrow> string \<Rightarrow> reply" where
  "get_vcb_exchange_rate lib date =
     except_as ''Error fetching VCB exchange rates: ''
       (and_then (vcb_exchange_rate lib date) (\<lambda>df.
          records_or (''No VCB exchange rate data found for '' @ date) df))"

section \<open>Company information\<close>

definition valid_info_types :: "string list" where
  "valid_info_types =
     [''overview'', ''shareholders'', ''officers'', ''subsidiaries'', ''events'', ''news'',
      ''reports'', ''ratio_summary'', ''trading_stats'']"

definition invalid_info_type_message :: "string \<Rightarrow> string" where
  "invalid_info_type_message info_type =
     ''Invalid info_type '' @ [CHR 0x27] @ info_type @ [CHR 0x27]
       @ ''. Valid types: overview, shareholders, officers, subsidiaries, events, news, reports, ratio_summary, trading_stats''"

text \<open>The \<^verbatim>\<open>if\<close>/\<^verbatim>\<open>elif\<close> chain: the library call for an info type, or \<open>None\<close> in the
  \<^verbatim>\<open>else\<close> branch.\<close>

definition company_call ::
  "'h vnstock \<Rightarrow> 'h \<Rightarrow> string \<Rightarrow> (exn + dataframe option) option" where
  "company_call lib company info_type =
     (if info_type = ''overview'' then Some (overview lib company)
      else if info_type = ''shareholders'' then Some (shareholders lib company)
      else if info_type = ''officers'' then Some (officers lib company ''working'')
      else if info_type = ''subsidiaries'' then Some (subsidiaries lib company ''all'')
      else if info_type = ''events'' then Some (events lib company)
      else if info_type = ''news'' then Some (news lib company)
      else if info_type = ''reports'' then Some (reports lib company)
      else if info_type = ''ratio_summary'' then Some (ratio_summary lib company)
      else if info_type = ''trading_stats'' then Some (trading_stats lib company)
      else None)"

definition get_company_info :: "'h vnstock \<Rightarrow> string \<Rightarrow> string \<Rightarrow> string \<Rightarrow> reply" where
  "get_company_info lib symbol info_type lang =
     except_as (''Error fetching '' @ info_type @ '' for '' @ symbol @ '': '')
       (and_then (stock lib (upper symbol) ''VCI'') (\<lambda>company.
          case company_call lib company info_type of
            None \<Rightarrow> Inr (Message (invalid_info_type_message info_type))
          | Some fetched \<Rightarrow>
              and_then fetched (\<lambda>df.
                records_or (''No '' @ info_type @ '' data found for '' @ symbol) df)))"

section \<open>Fund tools\<close>

definition get_fund_listing :: "'h vnstock \<Rightarrow> string \<Rightarrow> reply" where
  "get_fund_listing lib fund_type =
     except_as ''Error fetching fund listing: ''
       (and_then (fund_listing lib fund_type) (\<lambda>df.
          records_or (''No funds found for type: '' @ fund_type) df))"

definition search_funds :: "'h vnstock \<Rightarrow> string \<Rightarrow> reply" where
  "search_funds lib symbol =
     except_as ''Error searching funds: ''
       (and_then (fund_filter lib symbol) (\<lambda>df.
          records_or (''No funds found matching: '' @ symbol) df))"

definition get_fund_nav_report :: "'h vnstock \<Rightarrow> string \<Rightarrow> reply" where
  "get_fund_nav_report lib symbol =
     except_as (''Error fetching NAV report for '' @ symbol @ '': '')
       (and_then (nav_report lib (upper symbol)) (\<lambda>df.
          records_or (''No NAV data found for fund: '' @ symbol) df))"

definition get_fund_top_holdings :: "'h vnstock \<Rightarrow> string \<Rightarrow> reply" where
  "get_fund_top_holdings lib symbol =
     except_as (''Error fetching top holdings for '' @ symbol @ '': '')
       (and_then (top_holding lib (upper symbol)) (\<lambda>df.
          records_or (''No top holdings data found for fund: '' @ symbol) df))"

definition get_fund_industry_allocation :: "'h vnstock \<Rightarrow> string \<Rightarrow> reply" where
  "get_fund_industry_allocation lib symbol =
     except_as (''Error fetching industry allocation for '' @ symbol @ '': '')
       (and_then (industry_holding lib (upper symbol)) (\<lambda>df.
          records_or (''No industry allocation data found for fund: '' @ symbol) df))"

definition get_fund_asset_allocation :: "'h vnstock \<Rightarrow> string \<Rightarrow> reply" where
  "get_fund_asset_allocation lib symbol =
     except_as (''Error fetching asset allocation for '' @ symbol @ '': '')
       (and_then (asset_holding lib (upper symbol)) (\<lambda>df.
          records_or (''No asset allocation data found for fund: '' @ symbol) df))"

section \<open>Price tables\<close>

text \<open>
  A price series is the frame \<^verbatim>\<open>df_clean\<close> of the portfolio tools: the \<^verbatim>\<open>close\<close> column of
  one symbol, indexed by the timestamps that \<^verbatim>\<open>pd.to_datetime\<close> made of the \<^verbatim>\<open>time\<close>
  column. A table is what \<^verbatim>\<open>pd.concat(all_data, axis=1)\<close> returns: one column per series,
  one row per timestamp.
\<close>

type_synonym series = "(int \<times> cell) list"

type_synonym frame = "string \<times> series"

record table =
  tcolumns :: "string list"
  trows :: "(int \<times> cell list) list"

record solution =
  clean_weights :: "(string \<times> real) list"
  performance :: "real \<times> real \<times> real"

text \<open>
  pandas' timestamp conversion and the calls into PyPortfolioOpt. Each of the three
  solvers stands for one \<^verbatim>\<open>try\<close> block of the tools: building
  \<^verbatim>\<open>EfficientFrontier(mu, S)\<close>, the solve, \<^verbatim>\<open>portfolio_performance\<close> at the risk-free
  rate and \<^verbatim>\<open>clean_weights()\<close>. The last real argument is the risk-free rate;
  \<open>max_quadratic_utility\<close> takes the risk aversion before it.
\<close>

record pypfopt =
  to_datetime :: "cell \<Rightarrow> exn + int"
  mean_historical_return :: "table \<Rightarrow> bool \<Rightarrow> exn + (string \<times> real) list"
  sample_cov :: "table \<Rightarrow> exn + real list list"
  ledoit_wolf_shrinkage :: "table \<Rightarrow> exn + real list list"
  exp_cov :: "table \<Rightarrow> exn + real list list"
  semicovariance :: "table \<Rightarrow> exn + real list list"
  max_sharpe :: "(string \<times> real) list \<Rightarrow> real list list \<Rightarrow> real \<Rightarrow> exn + solution"
  min_volatility :: "(string \<times> real) list \<Rightarrow> real list list \<Rightarrow> real \<Rightarrow> exn + solution"
  max_quadratic_utility ::
    "(string \<times> real) list \<Rightarrow> real list list \<Rightarrow> real \<Rightarrow> real \<Rightarrow> exn + solution"

fun to_dates :: "pypfopt \<Rightarrow> (cell \<times> cell) list \<Rightarrow> exn + series" where
  "to_dates pf [] = Inr []"
| "to_dates pf ((t, c) # rest) =
     and_then (to_datetime pf t) (\<lambda>d.
     and_then (to_dates pf rest) (\<lambda>xs. Inr ((d, c) # xs)))"

text \<open>\<^verbatim>\<open>df[["time", "close"]]\<close>, the conversion of \<^verbatim>\<open>time\<close>, \<^verbatim>\<open>set_index("time")\<close> and the
  renaming of the one remaining column. A missing label is a \<^verbatim>\<open>KeyError\<close>; a repeated one
  leaves more than one column to rename, a \<^verbatim>\<open>ValueError\<close>.\<close>

definition price_series :: "pypfopt \<Rightarrow> dataframe \<Rightarrow> exn + series" where
  "price_series pf df =
     (case (index_of ''time'' (columns df), index_of ''close'' (columns df)) of
        (Some i, Some j) \<Rightarrow>
          if count_list (columns df) ''time'' \<noteq> 1 \<or> count_list (columns df) ''close'' \<noteq> 1
          then Inl (Exception ''Length mismatch'')
          else to_dates pf (map (\<lambda>r. (cell_at i r, cell_at j r)) (rows df))
      | _ \<Rightarrow> Inl (Exception ''not in index''))"

text \<open>The body of the \<^verbatim>\<open>for symbol in symbols\<close> loop after the history has come back: the
  text it returns, or the frame it appends to \<^verbatim>\<open>all_data\<close>.\<close>

definition read_series ::
  "pypfopt \<Rightarrow> string \<Rightarrow> string \<Rightarrow> string \<Rightarrow> exn + dataframe option \<Rightarrow> string + frame" where
  "read_series pf symbol start_date end_date history =
     (case history of
        Inl e \<Rightarrow> Inl (''Error fetching data for '' @ symbol @ '': '' @ str e)
      | Inr None \<Rightarrow>
          Inl (''No data found for '' @ symbol @ '' between '' @ start_date @ '' and '' @ end_date)
      | Inr (Some df) \<Rightarrow>
          if empty df
          then Inl (''No data found for '' @ symbol @ '' between '' @ start_date @ '' and ''
                      @ end_date)
          else (case price_series pf df of
                  Inl e \<Rightarrow> Inl (''Error fetching data for '' @ symbol @ '': '' @ str e)
                | Inr s \<Rightarrow> Inr (symbol, s)))"

text \<open>
  The request itself changes the world: the data source has been asked. The state
  threaded through the loop is the list of the symbols asked for so far, and it is the
  call that extends it, \<^verbatim>\<open>Quote(symbol, source="VCI").history(start, end, interval="1D")\<close>,
  not the loop.
\<close>

definition request_history ::
  "'h vnstock \<Rightarrow> string \<Rightarrow> string \<Rightarrow> string \<Rightarrow> string list
     \<Rightarrow> (exn + dataframe option) \<times> string list" where
  "request_history lib symbol start_date end_date requested =
     (quote_history lib symbol ''VCI'' start_date end_date ''1D'', requested @ [symbol])"

definition load_series ::
  "'h vnstock \<Rightarrow> pypfopt \<Rightarrow> string \<Rightarrow> string \<Rightarrow> string \<Rightarrow> string list
     \<Rightarrow> (string + frame) \<times> string list" where
  "load_series lib pf symbol start_date end_date requested =
     (case request_history lib symbol start_date end_date requested of
        (history, requested') \<Rightarrow> (read_series pf symbol start_date end_date history, requested'))"

text \<open>The loop: one request after the other, each awaited before the next, and a
  \<^verbatim>\<open>return\<close> from inside the loop on the first text.\<close>

fun fetch_prices ::
  "'h vnstock \<Rightarrow> pypfopt \<Rightarrow> string \<Rightarrow> string \<Rightarrow> string list \<Rightarrow> frame list \<Rightarrow> string list
     \<Rightarrow> (string + frame list) \<times> string list" where
  "fetch_prices lib pf start_date end_date [] all_data requested = (Inr all_data, requested)"
| "fetch_prices lib pf start_date end_date (symbol # rest) all_data requested =
     (case load_series lib pf symbol start_date end_date requested of
        (Inl msg, requested') \<Rightarrow> (Inl msg, requested')
      | (Inr f, requested') \<Rightarrow>
          fetch_prices lib pf start_date end_date rest (all_data @ [f]) requested')"

text \<open>
  \<^verbatim>\<open>pd.concat(all_data, axis=1)\<close>. When all series carry the same index, pandas puts them
  side by side as they are, repeated timestamps included. Otherwise it aligns them on
  the union of their timestamps, an outer join in which a cell is missing where a
  series has no row for the timestamp; a series whose index repeats a timestamp cannot
  be aligned (\<^verbatim>\<open>InvalidIndexError\<close>), and the model takes every list with differing
  indexes and such a series to be refused. An empty list is refused too; the tools
  never pass one.
\<close>

definition unique_index :: "frame \<Rightarrow> bool" where
  "unique_index f = distinct (map fst (snd f))"

definition lookup :: "int \<Rightarrow> frame \<Rightarrow> cell" where
  "lookup d f = (case map_of (snd f) d of Some c \<Rightarrow> c | None \<Rightarrow> Null)"

definition same_index :: "frame list \<Rightarrow> bool" where
  "same_index all_data =
     list_all (\<lambda>f. map fst (snd f) = map fst (snd (hd all_data))) all_data"

definition side_by_side :: "frame list \<Rightarrow> (int \<times> cell list) list" where
  "side_by_side all_data =
     map (\<lambda>i. (fst (snd (hd all_data) ! i), map (\<lambda>f. snd (snd f ! i)) all_data))
       [0 ..< length (snd (hd all_data))]"

definition outer_join :: "frame list \<Rightarrow> (int \<times> cell list) list" where
  "outer_join all_data =
     map (\<lambda>d. (d, map (lookup d) all_data))
       (sort (remdups (concat (map (\<lambda>f. map fst (snd f)) all_data))))"

definition pd_concat :: "frame list \<Rightarrow> exn + table" where
  "pd_concat all_data =
     (if all_data = [] then Inl (Exception ''No objects to concatenate'')
      else if same_index all_data
      then Inr \<lparr>tcolumns = map fst all_data, trows = side_by_side all_data\<rparr>
      else if list_all unique_index all_data
      then Inr \<lparr>tcolumns = map fst all_data, trows = outer_join all_data\<rparr>
      else Inl (Exception ''Reindexing only valid with uniquely valued Index objects''))"

text \<open>\<^verbatim>\<open>combined_df.dropna()\<close>: the rows without a missing cell.\<close>

definition dropna :: "table \<Rightarrow> table" where
  "dropna t = t\<lparr>trows := filter (\<lambda>r. Null \<notin> set (snd r)) (trows t)\<rparr>"

definition table_empty :: "table \<Rightarrow> bool" where
  "table_empty t = (tcolumns t = [] \<or> trows t = [])"

text \<open>The part the three portfolio tools share, from the loop to the test of
  \<^verbatim>\<open>combined_df.empty\<close>: an early \<^verbatim>\<open>return\<close>, or the cleaned table. The tool's reply does
  not depend on what was asked before, so the loop is run on an empty list of requests.\<close>

datatype prepared = Early reply | Cleaned table

definition clean_prices ::
  "'h vnstock \<Rightarrow> pypfopt \<Rightarrow> string list \<Rightarrow> string \<Rightarrow> string \<Rightarrow> exn + prepared" where
  "clean_prices lib pf symbols start_date end_date =
     (case fst (fetch_prices lib pf start_date end_date symbols [] []) of
        Inl msg \<Rightarrow> Inr (Early (Message msg))
      | Inr all_data \<Rightarrow>
          if all_data = [] then Inr (Early (Message ''No data found for any symbols''))
          else and_then (pd_concat all_data) (\<lambda>combined_df.
                 if table_empty (dropna combined_df)
                 then Inr (Early (Message
                        ''No complete data available after cleaning missing values''))
                 else Inr (Cleaned (dropna combined_df))))"

section \<open>Portfolio tools\<close>

definition calculate_returns ::
  "'h vnstock \<Rightarrow> pypfopt \<Rightarrow> string list \<Rightarrow> string \<Rightarrow> string \<Rightarrow> string \<Rightarrow> bool \<Rightarrow> reply" where
  "calculate_returns lib pf symbols start_date end_date method log_returns =
     except_as ''Error calculating returns: ''
       (and_then (clean_prices lib pf symbols start_date end_date) (\<lambda>p.
          case p of
            Early r \<Rightarrow> Inr r
          | Cleaned combined_df \<Rightarrow>
              and_then (mean_historical_return pf combined_df log_returns) (\<lambda>mu.
                Inr (Returns_json
                  \<lparr>rr_symbols = symbols, rr_start_date = start_date, rr_end_date = end_date,
                   rr_method = method, rr_log_returns = log_returns,
                   rr_expected_returns = mu, rr_frequency = 252,
                   rr_compounding = False\<rparr>))))"

text \<open>The \<^verbatim>\<open>if\<close>/\<^verbatim>\<open>elif\<close> chain on \<^verbatim>\<open>covariance_method\<close>.\<close>

definition covariance :: "pypfopt \<Rightarrow> string \<Rightarrow> table \<Rightarrow> exn + real list list" where
  "covariance pf covariance_method combined_df =
     (if covariance_method = ''sample_cov'' then sample_cov pf combined_df
      else if covariance_method = ''ledoit_wolf'' then ledoit_wolf_shrinkage pf combined_df
      else if covariance_method = ''exp_cov'' then exp_cov pf combined_df
      else if covariance_method = ''semicovariance'' then semicovariance pf combined_df
      else sample_cov pf combined_df)"

definition rounded_weights :: "(string \<times> real) list \<Rightarrow> (string \<times> real) list" where
  "rounded_weights ws = map (\<lambda>(k, v). (k, py_round v 4)) ws"

text \<open>The two handlers of \<^verbatim>\<open>optimize_portfolio\<close>.\<close>

definition optimize_except :: "exn + reply \<Rightarrow> reply" where
  "optimize_except r =
     (case r of
        Inl (OptimizationError m) \<Rightarrow> Message (''Optimization failed: '' @ m)
      | Inl (Exception m) \<Rightarrow> Message (''Error optimizing portfolio: '' @ m)
      | Inr out \<Rightarrow> out)"

definition optimize_portfolio ::
  "'h vnstock \<Rightarrow> pypfopt \<Rightarrow> string list \<Rightarrow> string \<Rightarrow> string \<Rightarrow> real \<Rightarrow> string \<Rightarrow> bool
     \<Rightarrow> reply" where
  "optimize_portfolio lib pf symbols start_date end_date risk_free_rate covariance_method
       log_returns =
     optimize_except
       (and_then (clean_prices lib pf symbols start_date end_date) (\<lambda>p.
          case p of
            Early r \<Rightarrow> Inr r
          | Cleaned combined_df \<Rightarrow>
              and_then (mean_historical_return pf combined_df log_returns) (\<lambda>mu.
              and_then (covariance pf covariance_method combined_df) (\<lambda>S.
              and_then (max_sharpe pf mu S risk_free_rate) (\<lambda>ef.
                Inr (Portfolio_json
                  \<lparr>pr_symbols = symbols, pr_start_date = start_date, pr_end_date = end_date,
                   pr_optimization_type = ''max_sharpe'',
                   pr_risk_free_rate = risk_free_rate,
                   pr_covariance_method = covariance_method,
                   pr_log_returns = log_returns,
                   pr_optimal_weights = rounded_weights (clean_weights ef),
                   pr_performance_metrics =
                     \<lparr>expected_annual_return = py_round (fst (performance ef)) 6,
                      annual_volatility = py_round (fst (snd (performance ef))) 6,
                      sharpe_ratio = py_round (snd (snd (performance ef))) 6\<rparr>\<rparr>))))))"

text \<open>One of the three inner \<^verbatim>\<open>try\<close> blocks of \<^verbatim>\<open>full_portfolio_optimization\<close>: the entry
  it stores, or the exception that its \<^verbatim>\<open>except OptimizationError\<close> lets through.\<close>

definition attempt :: "string \<Rightarrow> string \<Rightarrow> exn + solution \<Rightarrow> exn + portfolio_entry" where
  "attempt failure_text optimization_type r =
     (case r of
        Inr ef \<Rightarrow>
          Inr (Succeeded (rounded_weights (clean_weights ef))
                 (py_round (fst (performance ef)) 6)
                 (py_round (fst (snd (performance ef))) 6)
                 (py_round (snd (snd (performance ef))) 6)
                 optimization_type)
      | Inl (OptimizationError m) \<Rightarrow> Inr (Failed (failure_text @ m))
      | Inl (Exception m) \<Rightarrow> Inl (Exception m))"

definition successful :: "(string \<times> portfolio_entry) list \<Rightarrow> string list" where
  "successful optimizations = map fst (filter (\<lambda>kv. success (snd kv)) optimizations)"

definition full_portfolio_optimization ::
  "'h vnstock \<Rightarrow> pypfopt \<Rightarrow> string list \<Rightarrow> string \<Rightarrow> string \<Rightarrow> real \<Rightarrow> real \<Rightarrow> string
     \<Rightarrow> bool \<Rightarrow> reply" where
  "full_portfolio_optimization lib pf symbols start_date end_date risk_free_rate risk_aversion
       covariance_method log_returns =
     except_as ''Error in full portfolio optimization: ''
       (and_then (clean_prices lib pf symbols start_date end_date) (\<lambda>p.
          case p of
            Early r \<Rightarrow> Inr r
          | Cleaned combined_df \<Rightarrow>
              and_then (mean_historical_return pf combined_df log_returns) (\<lambda>mu.
              and_then (covariance pf covariance_method combined_df) (\<lambda>S.
              and_then (attempt ''Max Sharpe optimization failed: '' ''max_sharpe''
                          (max_sharpe pf mu S risk_free_rate)) (\<lambda>sharpe.
              and_then (attempt ''Min volatility optimization failed: '' ''min_volatility''
                          (min_volatility pf mu S risk_free_rate)) (\<lambda>minvol.
              and_then (attempt ''Max utility optimization failed: '' ''max_utility''
                          (max_quadratic_utility pf mu S risk_aversion risk_free_rate))
                (\<lambda>utility.
                Inr (Full_json
                  \<lparr>fr_symbols = symbols, fr_start_date = start_date, fr_end_date = end_date,
                   fr_risk_free_rate = risk_free_rate, fr_risk_aversion = risk_aversion,
                   fr_covariance_method = covariance_method, fr_log_returns = log_returns,
                   fr_optimized_portfolios =
                     [(''max_sharpe'', sharpe), (''min_volatility'', minvol),
                      (''max_utility'', utility)],
                   fr_total_portfolios =
                     length (successful [(''max_sharpe'', sharpe), (''min_volatility'', minvol),
                                         (''max_utility'', utility)]),
                   fr_successful_optimizations =
                     successful [(''max_sharpe'', sharpe), (''min_volatility'', minvol),
                                 (''max_utility'', utility)]\<rparr>))))))))"

section \<open>Properties of replies\<close>

text \<open>The \<^verbatim>\<open>yearReport\<close> field of a JSON record, and the order \<^verbatim>\<open>sort_values\<close> puts cells
  in: numbers by value, texts alphabetically, missing values after both.\<close>

definition year_report :: "json_record \<Rightarrow> cell" where
  "year_report r = (case map_of r ''yearReport'' of Some c \<Rightarrow> c | None \<Rightarrow> Null)"

fun before :: "cell \<Rightarrow> cell \<Rightarrow> bool" where
  "before (Num a) (Num b) = (a \<le> b)"
| "before (Str a) (Str b) = (a \<le> b)"
| "before c Null = True"
| "before c d = False"

text \<open>A reply with the \<^verbatim>\<open>covariance_method\<close> field of its JSON object replaced.\<close>

fun echo_method :: "string \<Rightarrow> reply \<Rightarrow> reply" where
  "echo_method m (Portfolio_json r) = Portfolio_json (r\<lparr>pr_covariance_method := m\<rparr>)"
| "echo_method m (Full_json r) = Full_json (r\<lparr>fr_covariance_method := m\<rparr>)"
| "echo_method m r = r"

text \<open>
  A reply with the symbol in its texts exchanged: the no-data text for \<open>old\<close> becomes
  the one for \<open>new\<close>, an error text keeps its message behind the prefix for \<open>new\<close>;
  records and every other text stay as they are.
\<close>

definition with_symbol ::
  "(string \<Rightarrow> string) \<Rightarrow> (string \<Rightarrow> string) \<Rightarrow> string \<Rightarrow> string \<Rightarrow> reply \<Rightarrow> reply" where
  "with_symbol no_data error_prefix old new r =
     (case r of
        Message m \<Rightarrow>
          if m = no_data old then Message (no_data new)
          else if take (length (error_prefix old)) m = error_prefix old
          then Message (error_prefix new @ drop (length (error_prefix old)) m)
          else Message m
      | _ \<Rightarrow> r)"

section \<open>Sample libraries\<close>

text \<open>A data source that knows nothing: every query returns \<^verbatim>\<open>None\<close>, and the handle of a
  stock is its symbol.\<close>

definition idle_vnstock :: "string vnstock" where
  "idle_vnstock =
     \<lparr>quote_history = (\<lambda>symbol source start end interval. Inr None),
      fx_history = (\<lambda>symbol source start end interval. Inr None),
      crypto_history = (\<lambda>symbol source start end interval. Inr None),
      world_index_history = (\<lambda>symbol source start end interval. Inr None),
      stock = (\<lambda>symbol source. Inr symbol),
      income_statement = (\<lambda>h period lang. Inr None),
      balance_sheet = (\<lambda>h period lang. Inr None),
      cash_flow = (\<lambda>h period lang. Inr None),
      ratio = (\<lambda>h period lang. Inr None),
      flatten_hierarchical_index = (\<lambda>df. Inr df),
      dividends = (\<lambda>h. Inr None),
      overview = (\<lambda>h. Inr None),
      shareholders = (\<lambda>h. Inr None),
      officers = (\<lambda>h filter_by. Inr None),
      subsidiaries = (\<lambda>h filter_by. Inr None),
      events = (\<lambda>h. Inr None),
      news = (\<lambda>h. Inr None),
      reports = (\<lambda>h. Inr None),
      ratio_summary = (\<lambda>h. Inr None),
      trading_stats = (\<lambda>h. Inr None),
      sjc_gold_price = (\<lambda>date. Inr None),
      btmc_goldprice = Inr None,
      vcb_exchange_rate = (\<lambda>date. Inr None),
      fund_listing = (\<lambda>fund_type. Inr None),
      fund_filter = (\<lambda>symbol. Inr None),
      nav_report = (\<lambda>symbol. Inr None),
      top_holding = (\<lambda>symbol. Inr None),
      industry_holding = (\<lambda>symbol. Inr None),
      asset_holding = (\<lambda>symbol. Inr None)\<rparr>"

text \<open>Four price histories: \<^verbatim>\<open>AAA\<close> on days 1 to 3, \<^verbatim>\<open>BBB\<close> on days 2 to 4, \<^verbatim>\<open>CCC\<close> on
  days 7 and 8, and \<^verbatim>\<open>DUP\<close> with two rows for day 7. No other symbol has data; the empty
  symbol is rejected.\<close>

definition sample_prices :: "string \<Rightarrow> dataframe option" where
  "sample_prices symbol =
     (if symbol = ''AAA''
      then Some \<lparr>columns = [''time'', ''close''],
                 rows = [[Num 1, Num 10], [Num 2, Num 11], [Num 3, Num 12]]\<rparr>
      else if symbol = ''BBB''
      then Some \<lparr>columns = [''time'', ''close''],
                 rows = [[Num 2, Num 20], [Num 3, Num 21], [Num 4, Num 22]]\<rparr>
      else if symbol = ''CCC''
      then Some \<lparr>columns = [''time'', ''close''], rows = [[Num 7, Num 30], [Num 8, Num 31]]\<rparr>
      else if symbol = ''DUP''
      then Some \<lparr>columns = [''time'', ''close''], rows = [[Num 7, Num 40], [Num 7, Num 41]]\<rparr>
      else None)"

definition sample_statement :: dataframe where
  "sample_statement =
     \<lparr>columns = [''ticker'', ''yearReport'', ''Revenue''],
      rows = [[Str ''VCI'', Num 2023, Num 300], [Str ''VCI'', Num 2021, Num 100],
              [Str ''VCI'', Num 2022, Num 200]]\<rparr>"

definition sample_vnstock :: "string vnstock" where
  "sample_vnstock =
     idle_vnstock
       \<lparr>quote_history := (\<lambda>symbol source start end interval.
           if symbol = [] then Inl (Exception ''Invalid symbol'')
           else Inr (sample_prices symbol)),
        stock := (\<lambda>symbol source.
           if symbol = [] then Inl (Exception ''Invalid symbol'') else Inr symbol),
        income_statement := (\<lambda>h period lang. if h = ''VCI'' then Inr (Some sample_statement) else Inr None),
        balance_sheet := (\<lambda>h period lang. if h = ''VCI'' then Inr (Some sample_statement) else Inr None),
        cash_flow := (\<lambda>h period lang. if h = ''VCI'' then Inr (Some sample_statement) else Inr None)\<rparr>"

text \<open>A portfolio library with fixed answers: equal expected returns of 0.1, a covariance
  that names its estimator, equal weights. As in PyPortfolioOpt, \<^verbatim>\<open>max_sharpe\<close> raises a
  \<^verbatim>\<open>ValueError\<close> when no expected return exceeds the risk-free rate.\<close>

definition sample_solution :: "(string \<times> real) list \<Rightarrow> solution" where
  "sample_solution mu =
     \<lparr>clean_weights = map (\<lambda>kv. (fst kv, 1 / 2)) mu, performance = (1 / 10, 1 / 5, 2 / 5)\<rparr>"

definition sample_pypfopt :: pypfopt where
  "sample_pypfopt =
     \<lparr>to_datetime = (\<lambda>c. case c of Num x \<Rightarrow> Inr \<lfloor>x\<rfloor>
                          | Str s \<Rightarrow> Inl (Exception ''Unknown datetime string format'')
                          | Null \<Rightarrow> Inl (Exception ''NaT'')),
      mean_historical_return = (\<lambda>t log_returns. Inr (map (\<lambda>c. (c, 1 / 10)) (tcolumns t))),
      sample_cov = (\<lambda>t. Inr [[1]]),
      ledoit_wolf_shrinkage = (\<lambda>t. Inr [[2]]),
      exp_cov = (\<lambda>t. Inr [[3]]),
      semicovariance = (\<lambda>t. Inr [[4]]),
      max_sharpe = (\<lambda>mu S risk_free_rate.
        if list_all (\<lambda>kv. snd kv \<le> risk_free_rate) mu
        then Inl (Exception ''at least one of the assets must have an expected return exceeding the risk-free rate'')
        else Inr (sample_solution mu)),
      min_volatility = (\<lambda>mu S risk_free_rate. Inr (sample_solution mu)),
      max_quadratic_utility = (\<lambda>mu S risk_aversion risk_free_rate. Inr (sample_solution mu))\<rparr>"

text \<open>The same library with a \<^verbatim>\<open>max_sharpe\<close> whose solver fails with an
  \<^verbatim>\<open>OptimizationError\<close>.\<close>

definition infeasible_pypfopt :: pypfopt where
  "infeasible_pypfopt =
     sample_pypfopt\<lparr>max_sharpe := (\<lambda>mu S risk_free_rate.
       Inl (OptimizationError ''Solver status: infeasible''))\<rparr>"

text \<open>The text of PyPortfolioOpt's \<^verbatim>\<open>ValueError\<close>.\<close>

definition no_excess_return :: string where
  "no_excess_return =
     ''at least one of the assets must have an expected return exceeding the risk-free rate''"

text \<open>The records of \<open>sample_statement\<close>, oldest year first.\<close>

definition sorted_statement :: "json_record list" where
  "sorted_statement =
     [[(''ticker'', Str ''VCI''), (''yearReport'', Num 2021), (''Revenue'', Num 100)],
      [(''ticker'', Str ''VCI''), (''yearReport'', Num 2022), (''Revenue'', Num 200)],
      [(''ticker'', Str ''VCI''), (''yearReport'', Num 2023), (''Revenue'', Num 300)]]"

text \<open>What \<open>optimize_portfolio\<close> returns for \<^verbatim>\<open>AAA\<close> and \<^verbatim>\<open>BBB\<close> on the sample libraries,
  as a function of the covariance method passed.\<close>

definition sample_portfolio :: "string \<Rightarrow> portfolio_report" where
  "sample_portfolio covariance_method =
     \<lparr>pr_symbols = [''AAA'', ''BBB''], pr_start_date = ''2024-01-01'',
      pr_end_date = ''2024-12-31'', pr_optimization_type = ''max_sharpe'',
      pr_risk_free_rate = 1 / 50, pr_covariance_method = covariance_method,
      pr_log_returns = False, pr_optimal_weights = [(''AAA'', 1 / 2), (''BBB'', 1 / 2)],
      pr_performance_metrics =
        \<lparr>expected_annual_return = 1 / 10, annual_volatility = 1 / 5, sharpe_ratio = 2 / 5\<rparr>\<rparr>"

text \<open>The cleaned table of \<^verbatim>\<open>AAA\<close> and \<^verbatim>\<open>BBB\<close>, the expected returns and an entry that the
  sample library produces for them.\<close>

definition sample_table :: table where
  "sample_table =
     \<lparr>tcolumns = [''AAA'', ''BBB''], trows = [(2, [Num 11, Num 20]), (3, [Num 12, Num 21])]\<rparr>"

definition sample_mu :: "(string \<times> real) list" where
  "sample_mu = [(''AAA'', 1 / 10), (''BBB'', 1 / 10)]"

definition sample_entry :: "string \<Rightarrow> portfolio_entry" where
  "sample_entry optimization_type =
     Succeeded [(''AAA'', 1 / 2), (''BBB'', 1 / 2)] (1 / 10) (1 / 5) (2 / 5) optimization_type"

text \<open>The text of the \<^verbatim>\<open>return\<close> after \<^verbatim>\<open>if combined_df.empty\<close>.\<close>

definition no_complete_data :: string where
  "no_complete_data = ''No complete data available after cleaning missing values''"

text \<open>The series of \<^verbatim>\<open>AAA\<close> and \<^verbatim>\<open>BBB\<close> and their outer join; the series of \<^verbatim>\<open>AAA\<close> and
  \<^verbatim>\<open>CCC\<close>, which share no day, and theirs.\<close>

definition sample_frames :: "frame list" where
  "sample_frames =
     [(''AAA'', [(1, Num 10), (2, Num 11), (3, Num 12)]),
      (''BBB'', [(2, Num 20), (3, Num 21), (4, Num 22)])]"


definition disjoint_frames :: "frame list" where
  "disjoint_frames =
     [(''AAA'', [(1, Num 10), (2, Num 11), (3, Num 12)]),
      (''CCC'', [(7, Num 30), (8, Num 31)])]"

definition disjoint_joined :: table where
  "disjoint_joined =
     \<lparr>tcolumns = [''AAA'', ''CCC''],
      trows = [(1, [Num 10, Null]), (2, [Num 11, Null]), (3, [Num 12, Null]),
               (7, [Null, Num 30]), (8, [Null, Num 31])]\<rparr>"

text \<open>The series of \<^verbatim>\<open>AAA\<close> and \<^verbatim>\<open>DUP\<close>: no day in common, and \<^verbatim>\<open>DUP\<close> repeats day 7.\<close>

definition repeating_frames :: "frame list" where
  "repeating_frames =
     [(''AAA'', [(1, Num 10), (2, Num 11), (3, Num 12)]),
      (''DUP'', [(7, Num 40), (7, Num 41)])]"

text \<open>A reply that is a text beginning with \<^verbatim>\<open>Error\<close> and a space.\<close>

definition error_text :: "reply \<Rightarrow> bool" where
  "error_text r = (case r of Message s \<Rightarrow> take 6 s = ''Error '' | _ \<Rightarrow> False)"

section \<open>Verified properties\<close>

subsection \<open>Helper facts\<close>

lemma upper_char_idem: "upper_char (upper_char c) = upper_char c"
  unfolding upper_char_def by (auto split: option.splits if_splits)

lemma upper_idem: "upper (upper s) = upper s"
  by (simp add: upper_def upper_char_idem)

lemma company_call_invalid:
  "info_type \<notin> set valid_info_types \<Longrightarrow> company_call lib company info_type = None"
  by (simp add: company_call_def valid_info_types_def)

lemma map_of_zip_index:
  "index_of c cols = Some i \<Longrightarrow>
     map_of (zip cols r) c = (if i < length r then Some (r ! i) else None)"
proof (induction cols arbitrary: i r)
  case Nil
  then show ?case by simp
next
  case (Cons x xs)
  show ?case
  proof (cases r)
    case Nil
    then show ?thesis by simp
  next
    case (Cons y ys)
    with Cons.prems Cons.IH show ?thesis
      by (auto split: if_splits)
  qed
qed

lemma year_report_zip:
  "index_of ''yearReport'' cols = Some i \<Longrightarrow> year_report (zip cols r) = cell_at i r"
  by (simp add: year_report_def cell_at_def map_of_zip_index)

lemma before_of_keys:
  assumes "sorted (map cell_key cs)"
    and "\<not> ((\<exists>c \<in> set cs. is_num c) \<and> (\<exists>c \<in> set cs. is_str c))"
  shows "sorted_wrt before cs"
proof -
  have s: "sorted_wrt (\<lambda>a b. cell_key a \<le> cell_key b) cs"
    using assms(1) by (simp add: sorted_wrt_map)
  have "\<And>a b. a \<in> set cs \<Longrightarrow> b \<in> set cs \<Longrightarrow> cell_key a \<le> cell_key b \<Longrightarrow> before a b"
  proof -
    fix a b
    assume "a \<in> set cs" "b \<in> set cs" "cell_key a \<le> cell_key b"
    with assms(2) show "before a b"
      by (cases a; cases b) (auto simp: less_eq_prod_def)
  qed
  with s show ?thesis by (rule sorted_wrt_mono_rel[rotated])
qed

lemma sort_values_ascending:
  assumes "sort_values ''yearReport'' d = Inr sorted_df"
    and "to_json sorted_df = Inr (Records recs)"
  shows "sorted_wrt before (map year_report recs)"
proof -
  from assms(1) obtain i where i: "index_of ''yearReport'' (columns d) = Some i"
    and mix: "\<not> ((\<exists>r \<in> set (rows d). is_num (cell_at i r))
                \<and> (\<exists>r \<in> set (rows d). is_str (cell_at i r)))"
    and sd: "sorted_df = d\<lparr>rows := sort_key (\<lambda>r. cell_key (cell_at i r)) (rows d)\<rparr>"
    by (auto simp: sort_values_def split: option.splits if_splits)
  let ?rs = "sort_key (\<lambda>r. cell_key (cell_at i r)) (rows d)"
  from assms(2) sd have recs: "recs = map (zip (columns d)) ?rs"
    by (simp add: to_json_def split: if_splits)
  have years: "map year_report recs = map (cell_at i) ?rs"
    using i by (simp add: recs year_report_zip)
  have "sorted (map cell_key (map (cell_at i) ?rs))"
    using sorted_sort_key [of "\<lambda>r. cell_key (cell_at i r)" "rows d"] by (simp add: comp_def)
  moreover have "\<not> ((\<exists>c \<in> set (map (cell_at i) ?rs). is_num c)
                   \<and> (\<exists>c \<in> set (map (cell_at i) ?rs). is_str c))"
    using mix by auto
  ultimately show ?thesis
    unfolding years by (rule before_of_keys)
qed

lemma income_statement_sorted:
  "get_income_statement lib symbol lang = Records recs
     \<Longrightarrow> sorted_wrt before (map year_report recs)"
  by (auto simp: get_income_statement_def and_then_def except_as_def
      split: sum.splits option.splits if_splits intro: sort_values_ascending)

lemma balance_sheet_sorted:
  "get_balance_sheet lib symbol lang = Records recs
     \<Longrightarrow> sorted_wrt before (map year_report recs)"
  by (auto simp: get_balance_sheet_def and_then_def except_as_def
      split: sum.splits option.splits if_splits intro: sort_values_ascending)

lemma cash_flow_sorted:
  "get_cash_flow lib symbol lang = Records recs
     \<Longrightarrow> sorted_wrt before (map year_report recs)"
  by (auto simp: get_cash_flow_def and_then_def except_as_def
      split: sum.splits option.splits if_splits intro: sort_values_ascending)

subsection \<open>Company information with an unknown info type\<close>

text \<open>
  C3, as the code has it. \<^verbatim>\<open>get_company_info\<close> builds the stock handle for the
  uppercased symbol before it looks at \<^verbatim>\<open>info_type\<close>. With an \<^verbatim>\<open>info_type\<close> outside the
  nine valid ones it returns the invalid-type text listing the valid options whenever
  the handle can be built, whatever the symbol and the language; when building the
  handle raises, it returns the text \<^verbatim>\<open>Error fetching <info_type> for <symbol>: <message>\<close>
  instead.
\<close>

theorem company_info_invalid_type:
  "info_type \<notin> set valid_info_types \<Longrightarrow>
     (\<forall>company. stock lib (upper symbol) ''VCI'' = Inr company \<longrightarrow>
        get_company_info lib symbol info_type lang
          = Message (invalid_info_type_message info_type))
     \<and> (\<forall>e. stock lib (upper symbol) ''VCI'' = Inl e \<longrightarrow>
        get_company_info lib symbol info_type lang
          = Message (''Error fetching '' @ info_type @ '' for '' @ symbol @ '': '' @ str e))"
  by (simp add: get_company_info_def and_then_def except_as_def company_call_invalid)

theorem company_info_invalid_type_witness:
  "''bogus'' \<notin> set valid_info_types
   \<and> stock sample_vnstock (upper ''vci'') ''VCI'' = Inr ''VCI''
   \<and> get_company_info sample_vnstock ''vci'' ''bogus'' ''en''
       = Message (invalid_info_type_message ''bogus'')"
proof -
  have a: "''bogus'' \<notin> set valid_info_types" by (simp add: valid_info_types_def)
  have b: "stock sample_vnstock (upper ''vci'') ''VCI'' = Inr ''VCI''"
    by (simp add: sample_vnstock_def idle_vnstock_def upper_def upper_char_def)
  from company_info_invalid_type [OF a, of sample_vnstock "''vci''" "''en''"] b
  show ?thesis using a by simp
qed

text \<open>
  The claim as the specification states it (the invalid-type text for every symbol)
  fails for the empty symbol on a data source that rejects it: the reply is the error
  text of the outer handler.
\<close>

theorem company_info_invalid_type_counterexample:
  "''bogus'' \<notin> set valid_info_types
   \<and> get_company_info sample_vnstock '''' ''bogus'' ''en''
       = Message ''Error fetching bogus for : Invalid symbol''
   \<and> get_company_info sample_vnstock '''' ''bogus'' ''en''
       \<noteq> Message (invalid_info_type_message ''bogus'')"
  by (simp add: get_company_info_def sample_vnstock_def idle_vnstock_def upper_def
      and_then_def except_as_def valid_info_types_def invalid_info_type_message_def)

subsection \<open>Statements in chronological order\<close>

text \<open>
  C9. Whenever \<^verbatim>\<open>get_income_statement\<close>, \<^verbatim>\<open>get_balance_sheet\<close> or \<^verbatim>\<open>get_cash_flow\<close> returns
  JSON records, their \<^verbatim>\<open>yearReport\<close> fields are in ascending order, oldest year first
  (records without a year come last).
\<close>

theorem statements_chronological:
  "(get_income_statement lib symbol lang = Records recs
      \<longrightarrow> sorted_wrt before (map year_report recs))
   \<and> (get_balance_sheet lib symbol lang = Records recs
      \<longrightarrow> sorted_wrt before (map year_report recs))
   \<and> (get_cash_flow lib symbol lang = Records recs
      \<longrightarrow> sorted_wrt before (map year_report recs))"
  using income_statement_sorted balance_sheet_sorted cash_flow_sorted by blast

theorem statements_chronological_witness:
  "get_income_statement sample_vnstock ''vci'' ''en'' = Records sorted_statement
   \<and> get_balance_sheet sample_vnstock ''vci'' ''en'' = Records sorted_statement
   \<and> get_cash_flow sample_vnstock ''vci'' ''en'' = Records sorted_statement
   \<and> sorted_wrt before (map year_report sorted_statement)"
proof -
  have a: "get_income_statement sample_vnstock ''vci'' ''en'' = Records sorted_statement"
    by (simp add: get_income_statement_def sample_vnstock_def idle_vnstock_def upper_def
      upper_char_def and_then_def except_as_def sample_statement_def empty_def sort_values_def
      cell_at_def to_json_def sorted_statement_def less_eq_prod_def)
  have b: "get_balance_sheet sample_vnstock ''vci'' ''en'' = Records sorted_statement"
    by (simp add: get_balance_sheet_def sample_vnstock_def idle_vnstock_def upper_def
      upper_char_def and_then_def except_as_def sample_statement_def empty_def sort_values_def
      cell_at_def to_json_def sorted_statement_def less_eq_prod_def)
  have c: "get_cash_flow sample_vnstock ''vci'' ''en'' = Records sorted_statement"
    by (simp add: get_cash_flow_def sample_vnstock_def idle_vnstock_def upper_def
      upper_char_def and_then_def except_as_def sample_statement_def empty_def sort_values_def
      cell_at_def to_json_def sorted_statement_def less_eq_prod_def)
  from statements_chronological [of sample_vnstock "''vci''" "''en''" sorted_statement] a b c
  show ?thesis by simp
qed

subsection \<open>Unknown covariance method\<close>

lemma covariance_fallback:
  "m \<notin> {''sample_cov'', ''ledoit_wolf'', ''exp_cov'', ''semicovariance''}
     \<Longrightarrow> covariance pf m t = sample_cov pf t"
  by (simp add: covariance_def)

lemma covariance_sample: "covariance pf ''sample_cov'' t = sample_cov pf t"
  by (simp add: covariance_def)

lemma optimize_portfolio_fallback:
  "m \<notin> {''sample_cov'', ''ledoit_wolf'', ''exp_cov'', ''semicovariance''} \<Longrightarrow>
     optimize_portfolio lib pf symbols sd ed rfr m lr
       = echo_method m (optimize_portfolio lib pf symbols sd ed rfr ''sample_cov'' lr)"
  unfolding optimize_portfolio_def
  by (simp add: covariance_fallback covariance_sample and_then_def optimize_except_def
      clean_prices_def split: sum.splits prepared.splits exn.splits)

lemma full_portfolio_fallback:
  "m \<notin> {''sample_cov'', ''ledoit_wolf'', ''exp_cov'', ''semicovariance''} \<Longrightarrow>
     full_portfolio_optimization lib pf symbols sd ed rfr ra m lr
       = echo_method m (full_portfolio_optimization lib pf symbols sd ed rfr ra ''sample_cov'' lr)"
  unfolding full_portfolio_optimization_def
  by (simp add: covariance_fallback covariance_sample and_then_def except_as_def
      clean_prices_def split: sum.splits prepared.splits exn.splits)

text \<open>
  C1, as the code has it. A \<^verbatim>\<open>covariance_method\<close> outside the four known names selects
  the sample covariance, and the reply of \<^verbatim>\<open>optimize_portfolio\<close> and of
  \<^verbatim>\<open>full_portfolio_optimization\<close> is the reply for \<^verbatim>\<open>"sample_cov"\<close> with one change: the
  \<^verbatim>\<open>covariance_method\<close> field of the JSON object repeats the string that was passed.
  Replies that are plain texts are identical.
\<close>

theorem covariance_method_fallback:
  "m \<notin> {''sample_cov'', ''ledoit_wolf'', ''exp_cov'', ''semicovariance''} \<Longrightarrow>
     covariance pf m t = covariance pf ''sample_cov'' t
     \<and> optimize_portfolio lib pf symbols sd ed rfr m lr
         = echo_method m (optimize_portfolio lib pf symbols sd ed rfr ''sample_cov'' lr)
     \<and> full_portfolio_optimization lib pf symbols sd ed rfr ra m lr
         = echo_method m
             (full_portfolio_optimization lib pf symbols sd ed rfr ra ''sample_cov'' lr)"
  by (simp add: covariance_fallback covariance_sample optimize_portfolio_fallback
      full_portfolio_fallback)

theorem covariance_method_fallback_witness:
  "''foo'' \<notin> {''sample_cov'', ''ledoit_wolf'', ''exp_cov'', ''semicovariance''}
   \<and> optimize_portfolio sample_vnstock sample_pypfopt [''AAA'', ''BBB''] ''2024-01-01''
       ''2024-12-31'' (1 / 50) ''foo'' False
     = echo_method ''foo'' (Portfolio_json (sample_portfolio ''sample_cov''))"
proof -
  have a: "''foo'' \<notin> {''sample_cov'', ''ledoit_wolf'', ''exp_cov'', ''semicovariance''}"
    by simp
  have b: "optimize_portfolio sample_vnstock sample_pypfopt [''AAA'', ''BBB''] ''2024-01-01''
       ''2024-12-31'' (1 / 50) ''sample_cov'' False = Portfolio_json (sample_portfolio ''sample_cov'')"
    by code_simp
  from covariance_method_fallback [OF a, where pf = sample_pypfopt and lib = sample_vnstock
      and symbols = "[''AAA'', ''BBB'']" and sd = "''2024-01-01''" and ed = "''2024-12-31''"
      and rfr = "1 / 50" and lr = False] a b
  show ?thesis by simp
qed

text \<open>
  The claim as the specification states it (identical output) fails wherever the tool
  reaches its JSON reply: the two replies differ in the \<^verbatim>\<open>covariance_method\<close> field.
\<close>

theorem covariance_method_fallback_counterexample:
  "optimize_portfolio sample_vnstock sample_pypfopt [''AAA'', ''BBB''] ''2024-01-01''
       ''2024-12-31'' (1 / 50) ''foo'' False = Portfolio_json (sample_portfolio ''foo'')
   \<and> optimize_portfolio sample_vnstock sample_pypfopt [''AAA'', ''BBB''] ''2024-01-01''
       ''2024-12-31'' (1 / 50) ''sample_cov'' False
       = Portfolio_json (sample_portfolio ''sample_cov'')
   \<and> Portfolio_json (sample_portfolio ''foo'')
       \<noteq> Portfolio_json (sample_portfolio ''sample_cov'')"
  by code_simp

subsection \<open>Case of the symbol\<close>

lemma with_symbol_records: "with_symbol nd ep old new (Records recs) = Records recs"
  by (simp add: with_symbol_def)

lemma with_symbol_no_data: "with_symbol nd ep old new (Message (nd old)) = Message (nd new)"
  by (simp add: with_symbol_def)

lemma with_symbol_error:
  "ep old @ m \<noteq> nd old
     \<Longrightarrow> with_symbol nd ep old new (Message (ep old @ m)) = Message (ep new @ m)"
  by (simp add: with_symbol_def)

lemma with_symbol_other:
  "m \<noteq> nd old \<Longrightarrow> take (length (ep old)) m \<noteq> ep old
     \<Longrightarrow> with_symbol nd ep old new (Message m) = Message m"
  by (simp add: with_symbol_def)

lemma except_as_with_symbol:
  assumes "\<And>m. ep old @ m \<noteq> nd old"
    and "body_new = (case body_old of Inl e \<Rightarrow> Inl e
                     | Inr r \<Rightarrow> Inr (with_symbol nd ep old new r))"
  shows "except_as (ep new) body_new = with_symbol nd ep old new (except_as (ep old) body_old)"
  using assms by (cases body_old) (simp_all add: except_as_def with_symbol_error)

lemma statement_shape:
  assumes "\<And>m. ep (upper symbol) @ m \<noteq> nd (upper symbol)"
  shows "except_as (ep symbol)
       (and_then (stock lib (upper symbol) src) (\<lambda>finance.
        and_then (fetch finance) (\<lambda>df.
          case df of
            None \<Rightarrow> Inr (Message (nd symbol))
          | Some d \<Rightarrow>
              if empty d then Inr (Message (nd symbol))
              else and_then (sort_values ''yearReport'' d) (\<lambda>sorted_df.
                     to_json sorted_df))))
     = with_symbol nd ep (upper symbol) symbol
         (except_as (ep (upper symbol))
           (and_then (stock lib (upper (upper symbol)) src) (\<lambda>finance.
            and_then (fetch finance) (\<lambda>df.
              case df of
                None \<Rightarrow> Inr (Message (nd (upper symbol)))
              | Some d \<Rightarrow>
                  if empty d then Inr (Message (nd (upper symbol)))
                  else and_then (sort_values ''yearReport'' d) (\<lambda>sorted_df.
                         to_json sorted_df)))))"
  by (rule except_as_with_symbol
        [where ep = ep and nd = nd and old = "upper symbol" and new = symbol])
     (simp_all add: assms upper_idem and_then_def with_symbol_no_data with_symbol_records to_json_def
        split: sum.splits option.splits)

lemma ratios_shape:
  assumes "\<And>m. ep (upper symbol) @ m \<noteq> nd (upper symbol)"
  shows "except_as (ep symbol)
       (and_then (stock lib (upper symbol) src) (\<lambda>finance.
        and_then (fetch finance) (\<lambda>df.
          case df of
            None \<Rightarrow> Inr (Message (nd symbol))
          | Some d \<Rightarrow>
              if empty d then Inr (Message (nd symbol))
              else and_then (flatten d) (\<lambda>flattened_df.
                   and_then (if ''yearReport'' \<in> set (columns flattened_df)
                             then sort_values ''yearReport'' flattened_df
                             else Inr flattened_df) (\<lambda>sorted_df.
                     to_json sorted_df)))))
     = with_symbol nd ep (upper symbol) symbol
         (except_as (ep (upper symbol))
           (and_then (stock lib (upper (upper symbol)) src) (\<lambda>finance.
            and_then (fetch finance) (\<lambda>df.
              case df of
                None \<Rightarrow> Inr (Message (nd (upper symbol)))
              | Some d \<Rightarrow>
                  if empty d then Inr (Message (nd (upper symbol)))
                  else and_then (flatten d) (\<lambda>flattened_df.
                       and_then (if ''yearReport'' \<in> set (columns flattened_df)
                                 then sort_values ''yearReport'' flattened_df
                                 else Inr flattened_df) (\<lambda>sorted_df.
                         to_json sorted_df))))))"
  by (rule except_as_with_symbol
        [where ep = ep and nd = nd and old = "upper symbol" and new = symbol])
     (simp_all add: assms upper_idem and_then_def with_symbol_no_data with_symbol_records to_json_def
        split: sum.splits option.splits)

lemma records_or_with_symbol:
  "records_or (nd new) df =
     (case records_or (nd old) df of Inl e \<Rightarrow> Inl e
      | Inr r \<Rightarrow> Inr (with_symbol nd ep old new r))"
  by (simp add: records_or_def to_json_def with_symbol_no_data with_symbol_records
      split: option.splits)

lemma dividend_shape:
  assumes "\<And>m. ep (upper symbol) @ m \<noteq> nd (upper symbol)"
  shows "except_as (ep symbol)
       (and_then (stock lib (upper symbol) src) (\<lambda>company.
        and_then (fetch company) (\<lambda>df. records_or (nd symbol) df)))
     = with_symbol nd ep (upper symbol) symbol
         (except_as (ep (upper symbol))
           (and_then (stock lib (upper (upper symbol)) src) (\<lambda>company.
            and_then (fetch company) (\<lambda>df. records_or (nd (upper symbol)) df))))"
  by (rule except_as_with_symbol
        [where ep = ep and nd = nd and old = "upper symbol" and new = symbol])
     (simp_all add: assms upper_idem and_then_def
        records_or_with_symbol [where nd = nd and new = symbol and old = "upper symbol" and ep = ep]
        split: sum.splits)

lemma fund_shape:
  assumes "\<And>m. ep (upper symbol) @ m \<noteq> nd (upper symbol)"
  shows "except_as (ep symbol)
       (and_then (fetch (upper symbol)) (\<lambda>df. records_or (nd symbol) df))
     = with_symbol nd ep (upper symbol) symbol
         (except_as (ep (upper symbol))
           (and_then (fetch (upper (upper symbol))) (\<lambda>df. records_or (nd (upper symbol)) df)))"
  by (rule except_as_with_symbol
        [where ep = ep and nd = nd and old = "upper symbol" and new = symbol])
     (simp_all add: assms upper_idem and_then_def
        records_or_with_symbol [where nd = nd and new = symbol and old = "upper symbol" and ep = ep]
        split: sum.splits)

lemma company_shape:
  assumes "\<And>m. ep (upper symbol) @ m \<noteq> nd (upper symbol)"
    and "other \<noteq> nd (upper symbol)"
    and "take (length (ep (upper symbol))) other \<noteq> ep (upper symbol)"
  shows "except_as (ep symbol)
       (and_then (stock lib (upper symbol) src) (\<lambda>company.
          case call company of
            None \<Rightarrow> Inr (Message other)
          | Some fetched \<Rightarrow> and_then fetched (\<lambda>df. records_or (nd symbol) df)))
     = with_symbol nd ep (upper symbol) symbol
         (except_as (ep (upper symbol))
           (and_then (stock lib (upper (upper symbol)) src) (\<lambda>company.
              case call company of
                None \<Rightarrow> Inr (Message other)
              | Some fetched \<Rightarrow> and_then fetched (\<lambda>df. records_or (nd (upper symbol)) df))))"
  by (rule except_as_with_symbol
        [where ep = ep and nd = nd and old = "upper symbol" and new = symbol])
     (simp_all add: assms(1) upper_idem and_then_def
        with_symbol_other [where ep = ep and nd = nd, OF assms(2,3)]
        records_or_with_symbol [where nd = nd and new = symbol and old = "upper symbol" and ep = ep]
        split: sum.splits option.splits)

lemma income_statement_upper:
  "get_income_statement lib symbol lang =
     with_symbol (\<lambda>s. ''No income statement data found for '' @ s)
       (\<lambda>s. ''Error fetching income statement for '' @ s @ '': '') (upper symbol) symbol
       (get_income_statement lib (upper symbol) lang)"
  unfolding get_income_statement_def
  by (rule statement_shape
        [where nd = "\<lambda>s. ''No income statement data found for '' @ s"
           and ep = "\<lambda>s. ''Error fetching income statement for '' @ s @ '': ''"]) simp

lemma balance_sheet_upper:
  "get_balance_sheet lib symbol lang =
     with_symbol (\<lambda>s. ''No balance sheet data found for '' @ s)
       (\<lambda>s. ''Error fetching balance sheet for '' @ s @ '': '') (upper symbol) symbol
       (get_balance_sheet lib (upper symbol) lang)"
  unfolding get_balance_sheet_def
  by (rule statement_shape
        [where nd = "\<lambda>s. ''No balance sheet data found for '' @ s"
           and ep = "\<lambda>s. ''Error fetching balance sheet for '' @ s @ '': ''"]) simp

lemma cash_flow_upper:
  "get_cash_flow lib symbol lang =
     with_symbol (\<lambda>s. ''No cash flow data found for '' @ s)
       (\<lambda>s. ''Error fetching cash flow for '' @ s @ '': '') (upper symbol) symbol
       (get_cash_flow lib (upper symbol) lang)"
  unfolding get_cash_flow_def
  by (rule statement_shape
        [where nd = "\<lambda>s. ''No cash flow data found for '' @ s"
           and ep = "\<lambda>s. ''Error fetching cash flow for '' @ s @ '': ''"]) simp

lemma financial_ratios_upper:
  "get_financial_ratios lib symbol lang =
     with_symbol (\<lambda>s. ''No financial ratio data found for '' @ s)
       (\<lambda>s. ''Error fetching financial ratios for '' @ s @ '': '') (upper symbol) symbol
       (get_financial_ratios lib (upper symbol) lang)"
  unfolding get_financial_ratios_def
  by (rule ratios_shape
        [where nd = "\<lambda>s. ''No financial ratio data found for '' @ s"
           and ep = "\<lambda>s. ''Error fetching financial ratios for '' @ s @ '': ''"]) simp

lemma dividend_history_upper:
  "get_dividend_history lib symbol =
     with_symbol (\<lambda>s. ''No dividend data found for '' @ s)
       (\<lambda>s. ''Error fetching dividend history for '' @ s @ '': '') (upper symbol) symbol
       (get_dividend_history lib (upper symbol))"
  unfolding get_dividend_history_def
  by (rule dividend_shape
        [where nd = "\<lambda>s. ''No dividend data found for '' @ s"
           and ep = "\<lambda>s. ''Error fetching dividend history for '' @ s @ '': ''"]) simp

lemma company_info_upper:
  "get_company_info lib symbol info_type lang =
     with_symbol (\<lambda>s. ''No '' @ info_type @ '' data found for '' @ s)
       (\<lambda>s. ''Error fetching '' @ info_type @ '' for '' @ s @ '': '') (upper symbol) symbol
       (get_company_info lib (upper symbol) info_type lang)"
  unfolding get_company_info_def
  by (rule company_shape
        [where nd = "\<lambda>s. ''No '' @ info_type @ '' data found for '' @ s"
           and ep = "\<lambda>s. ''Error fetching '' @ info_type @ '' for '' @ s @ '': ''"])
     (simp_all add: invalid_info_type_message_def)

lemma fund_nav_report_upper:
  "get_fund_nav_report lib symbol =
     with_symbol (\<lambda>s. ''No NAV data found for fund: '' @ s)
       (\<lambda>s. ''Error fetching NAV report for '' @ s @ '': '') (upper symbol) symbol
       (get_fund_nav_report lib (upper symbol))"
  unfolding get_fund_nav_report_def
  by (rule fund_shape
        [where nd = "\<lambda>s. ''No NAV data found for fund: '' @ s"
           and ep = "\<lambda>s. ''Error fetching NAV report for '' @ s @ '': ''"]) simp

lemma fund_top_holdings_upper:
  "get_fund_top_holdings lib symbol =
     with_symbol (\<lambda>s. ''No top holdings data found for fund: '' @ s)
       (\<lambda>s. ''Error fetching top holdings for '' @ s @ '': '') (upper symbol) symbol
       (get_fund_top_holdings lib (upper symbol))"
  unfolding get_fund_top_holdings_def
  by (rule fund_shape
        [where nd = "\<lambda>s. ''No top holdings data found for fund: '' @ s"
           and ep = "\<lambda>s. ''Error fetching top holdings for '' @ s @ '': ''"]) simp

lemma fund_industry_allocation_upper:
  "get_fund_industry_allocation lib symbol =
     with_symbol (\<lambda>s. ''No industry allocation data found for fund: '' @ s)
       (\<lambda>s. ''Error fetching industry allocation for '' @ s @ '': '') (upper symbol) symbol
       (get_fund_industry_allocation lib (upper symbol))"
  unfolding get_fund_industry_allocation_def
  by (rule fund_shape
        [where nd = "\<lambda>s. ''No industry allocation data found for fund: '' @ s"
           and ep = "\<lambda>s. ''Error fetching industry allocation for '' @ s @ '': ''"]) simp

lemma fund_asset_allocation_upper:
  "get_fund_asset_allocation lib symbol =
     with_symbol (\<lambda>s. ''No asset allocation data found for fund: '' @ s)
       (\<lambda>s. ''Error fetching asset allocation for '' @ s @ '': '') (upper symbol) symbol
       (get_fund_asset_allocation lib (upper symbol))"
  unfolding get_fund_asset_allocation_def
  by (rule fund_shape
        [where nd = "\<lambda>s. ''No asset allocation data found for fund: '' @ s"
           and ep = "\<lambda>s. ''Error fetching asset allocation for '' @ s @ '': ''"]) simp

text \<open>
  C10, as the code has it. The ten tools pass \<^verbatim>\<open>symbol.upper()\<close> to the library and use
  the symbol as typed in their texts only. So the reply for a symbol is the reply for
  the uppercased symbol with the symbol as typed in its texts: the same JSON records,
  or the no-data text, or the error text with the same message, or (for
  \<^verbatim>\<open>get_company_info\<close>) the same invalid-type text. The two replies are equal except for
  the symbol named in a no-data or error text.
\<close>

theorem symbol_case_insensitive:
  "get_income_statement lib symbol lang =
     with_symbol (\<lambda>s. ''No income statement data found for '' @ s)
       (\<lambda>s. ''Error fetching income statement for '' @ s @ '': '') (upper symbol) symbol
       (get_income_statement lib (upper symbol) lang)
   \<and> get_balance_sheet lib symbol lang =
     with_symbol (\<lambda>s. ''No balance sheet data found for '' @ s)
       (\<lambda>s. ''Error fetching balance sheet for '' @ s @ '': '') (upper symbol) symbol
       (get_balance_sheet lib (upper symbol) lang)
   \<and> get_cash_flow lib symbol lang =
     with_symbol (\<lambda>s. ''No cash flow data found for '' @ s)
       (\<lambda>s. ''Error fetching cash flow for '' @ s @ '': '') (upper symbol) symbol
       (get_cash_flow lib (upper symbol) lang)
   \<and> get_financial_ratios lib symbol lang =
     with_symbol (\<lambda>s. ''No financial ratio data found for '' @ s)
       (\<lambda>s. ''Error fetching financial ratios for '' @ s @ '': '') (upper symbol) symbol
       (get_financial_ratios lib (upper symbol) lang)
   \<and> get_dividend_history lib symbol =
     with_symbol (\<lambda>s. ''No dividend data found for '' @ s)
       (\<lambda>s. ''Error fetching dividend history for '' @ s @ '': '') (upper symbol) symbol
       (get_dividend_history lib (upper symbol))
   \<and> get_company_info lib symbol info_type lang =
     with_symbol (\<lambda>s. ''No '' @ info_type @ '' data found for '' @ s)
       (\<lambda>s. ''Error fetching '' @ info_type @ '' for '' @ s @ '': '') (upper symbol) symbol
       (get_company_info lib (upper symbol) info_type lang)
   \<and> get_fund_nav_report lib symbol =
     with_symbol (\<lambda>s. ''No NAV data found for fund: '' @ s)
       (\<lambda>s. ''Error fetching NAV report for '' @ s @ '': '') (upper symbol) symbol
       (get_fund_nav_report lib (upper symbol))
   \<and> get_fund_top_holdings lib symbol =
     with_symbol (\<lambda>s. ''No top holdings data found for fund: '' @ s)
       (\<lambda>s. ''Error fetching top holdings for '' @ s @ '': '') (upper symbol) symbol
       (get_fund_top_holdings lib (upper symbol))
   \<and> get_fund_industry_allocation lib symbol =
     with_symbol (\<lambda>s. ''No industry allocation data found for fund: '' @ s)
       (\<lambda>s. ''Error fetching industry allocation for '' @ s @ '': '') (upper symbol) symbol
       (get_fund_industry_allocation lib (upper symbol))
   \<and> get_fund_asset_allocation lib symbol =
     with_symbol (\<lambda>s. ''No asset allocation data found for fund: '' @ s)
       (\<lambda>s. ''Error fetching asset allocation for '' @ s @ '': '') (upper symbol) symbol
       (get_fund_asset_allocation lib (upper symbol))"
  by (intro conjI income_statement_upper balance_sheet_upper cash_flow_upper
      financial_ratios_upper dividend_history_upper company_info_upper fund_nav_report_upper
      fund_top_holdings_upper fund_industry_allocation_upper fund_asset_allocation_upper)

theorem symbol_case_insensitive_witness:
  "get_income_statement sample_vnstock ''vci'' ''en'' = Records sorted_statement
   \<and> get_income_statement sample_vnstock ''VCI'' ''en'' = Records sorted_statement
   \<and> get_income_statement idle_vnstock ''VCI'' ''en''
       = Message ''No income statement data found for VCI''
   \<and> get_income_statement idle_vnstock ''vci'' ''en''
       = Message ''No income statement data found for vci''"
proof -
  have u: "upper ''vci'' = ''VCI''"
    by (simp add: upper_def upper_char_def)
  have a: "get_income_statement sample_vnstock ''VCI'' ''en'' = Records sorted_statement"
    by code_simp
  have b: "get_income_statement idle_vnstock ''VCI'' ''en''
             = Message ''No income statement data found for VCI''"
    by code_simp
  have "get_income_statement sample_vnstock ''vci'' ''en'' = Records sorted_statement"
    using symbol_case_insensitive [where lib = sample_vnstock and symbol = "''vci''"
        and lang = "''en''"]
    by (simp add: u a with_symbol_def)
  moreover have "get_income_statement idle_vnstock ''vci'' ''en''
             = Message ''No income statement data found for vci''"
    using symbol_case_insensitive [where lib = idle_vnstock and symbol = "''vci''"
        and lang = "''en''"]
    by (simp add: u b with_symbol_def)
  ultimately show ?thesis using a b by simp
qed

text \<open>
  The claim as the specification states it (the same result for \<^verbatim>\<open>vci\<close> and \<^verbatim>\<open>VCI\<close>)
  fails when the data source has no data: each text names the symbol as typed.
\<close>

theorem symbol_case_counterexample:
  "get_income_statement idle_vnstock ''vci'' ''en''
     = Message ''No income statement data found for vci''
   \<and> get_income_statement idle_vnstock (upper ''vci'') ''en''
     = Message ''No income statement data found for VCI''
   \<and> get_income_statement idle_vnstock ''vci'' ''en''
     \<noteq> get_income_statement idle_vnstock (upper ''vci'') ''en''"
  by (simp add: get_income_statement_def idle_vnstock_def upper_def upper_char_def
      and_then_def except_as_def)

subsection \<open>Objectives of the full optimization\<close>

lemma attempt_cases:
  "(\<forall>msg. r \<noteq> Inl (Exception msg)) \<Longrightarrow>
     \<exists>e. attempt txt ty r = Inr e \<and> success e = (\<exists>ef. r = Inr ef)"
  by (cases r) (auto simp: attempt_def split: exn.splits)

text \<open>
  What the three \<^verbatim>\<open>try\<close> blocks of \<^verbatim>\<open>full_portfolio_optimization\<close> achieve. When the
  tool reaches the optimization stage and no objective raises an exception other than
  \<^verbatim>\<open>OptimizationError\<close>, all three objectives are attempted, the reply holds one entry for
  each (its results, or the text of its failure), and the summary lists exactly the
  objectives that succeeded, in the order max_sharpe, min_volatility, max_utility, with
  their number.
\<close>

lemma optimization_error_isolated:
  assumes "clean_prices lib pf symbols sd ed = Inr (Cleaned t)"
    and "mean_historical_return pf t lr = Inr mu"
    and "covariance pf m t = Inr S"
    and "\<forall>msg. max_sharpe pf mu S rfr \<noteq> Inl (Exception msg)"
    and "\<forall>msg. min_volatility pf mu S rfr \<noteq> Inl (Exception msg)"
    and "\<forall>msg. max_quadratic_utility pf mu S ra rfr \<noteq> Inl (Exception msg)"
  shows "\<exists>rep sharpe minvol utility.
       full_portfolio_optimization lib pf symbols sd ed rfr ra m lr = Full_json rep
     \<and> fr_optimized_portfolios rep
         = [(''max_sharpe'', sharpe), (''min_volatility'', minvol), (''max_utility'', utility)]
     \<and> attempt ''Max Sharpe optimization failed: '' ''max_sharpe'' (max_sharpe pf mu S rfr)
         = Inr sharpe
     \<and> attempt ''Min volatility optimization failed: '' ''min_volatility''
         (min_volatility pf mu S rfr) = Inr minvol
     \<and> attempt ''Max utility optimization failed: '' ''max_utility''
         (max_quadratic_utility pf mu S ra rfr) = Inr utility
     \<and> success sharpe = (\<exists>ef. max_sharpe pf mu S rfr = Inr ef)
     \<and> success minvol = (\<exists>ef. min_volatility pf mu S rfr = Inr ef)
     \<and> success utility = (\<exists>ef. max_quadratic_utility pf mu S ra rfr = Inr ef)
     \<and> fr_successful_optimizations rep
         = (if success sharpe then [''max_sharpe''] else [])
           @ (if success minvol then [''min_volatility''] else [])
           @ (if success utility then [''max_utility''] else [])
     \<and> fr_total_portfolios rep = length (fr_successful_optimizations rep)"
proof -
  from attempt_cases [OF assms(4)] obtain sharpe where
    s: "attempt ''Max Sharpe optimization failed: '' ''max_sharpe'' (max_sharpe pf mu S rfr)
          = Inr sharpe" "success sharpe = (\<exists>ef. max_sharpe pf mu S rfr = Inr ef)"
    by blast
  from attempt_cases [OF assms(5)] obtain minvol where
    v: "attempt ''Min volatility optimization failed: '' ''min_volatility''
          (min_volatility pf mu S rfr) = Inr minvol"
       "success minvol = (\<exists>ef. min_volatility pf mu S rfr = Inr ef)"
    by blast
  from attempt_cases [OF assms(6)] obtain utility where
    u: "attempt ''Max utility optimization failed: '' ''max_utility''
          (max_quadratic_utility pf mu S ra rfr) = Inr utility"
       "success utility = (\<exists>ef. max_quadratic_utility pf mu S ra rfr = Inr ef)"
    by blast
  have "full_portfolio_optimization lib pf symbols sd ed rfr ra m lr =
          Full_json
            \<lparr>fr_symbols = symbols, fr_start_date = sd, fr_end_date = ed,
             fr_risk_free_rate = rfr, fr_risk_aversion = ra,
             fr_covariance_method = m, fr_log_returns = lr,
             fr_optimized_portfolios =
               [(''max_sharpe'', sharpe), (''min_volatility'', minvol), (''max_utility'', utility)],
             fr_total_portfolios =
               length (successful [(''max_sharpe'', sharpe), (''min_volatility'', minvol),
                                   (''max_utility'', utility)]),
             fr_successful_optimizations =
               successful [(''max_sharpe'', sharpe), (''min_volatility'', minvol),
                           (''max_utility'', utility)]\<rparr>"
    unfolding full_portfolio_optimization_def
    by (simp add: assms(1,2,3) s(1) v(1) u(1) and_then_def except_as_def)
  with s v u show ?thesis
    by (simp add: successful_def)
qed

lemma optimization_error_isolated_example:
  "clean_prices sample_vnstock infeasible_pypfopt [''AAA'', ''BBB''] ''2024-01-01''
      ''2024-12-31'' = Inr (Cleaned sample_table)
   \<and> max_sharpe infeasible_pypfopt sample_mu [[1]] (1 / 50)
       = Inl (OptimizationError ''Solver status: infeasible'')
   \<and> (\<exists>rep.
        full_portfolio_optimization sample_vnstock infeasible_pypfopt [''AAA'', ''BBB'']
          ''2024-01-01'' ''2024-12-31'' (1 / 50) 1 ''sample_cov'' False = Full_json rep
      \<and> fr_optimized_portfolios rep =
          [(''max_sharpe'',
            Failed ''Max Sharpe optimization failed: Solver status: infeasible''),
           (''min_volatility'', sample_entry ''min_volatility''),
           (''max_utility'', sample_entry ''max_utility'')]
      \<and> fr_successful_optimizations rep = [''min_volatility'', ''max_utility'']
      \<and> fr_total_portfolios rep = 2)"
proof -
  have a: "clean_prices sample_vnstock infeasible_pypfopt [''AAA'', ''BBB''] ''2024-01-01''
             ''2024-12-31'' = Inr (Cleaned sample_table)"
    by code_simp
  have b: "mean_historical_return infeasible_pypfopt sample_table False = Inr sample_mu"
    by code_simp
  have c: "covariance infeasible_pypfopt ''sample_cov'' sample_table = Inr [[1]]"
    by code_simp
  have d0: "max_sharpe infeasible_pypfopt sample_mu [[1]] (1 / 50)
              = Inl (OptimizationError ''Solver status: infeasible'')"
    by (simp add: infeasible_pypfopt_def)
  have d: "\<forall>msg. max_sharpe infeasible_pypfopt sample_mu [[1]] (1 / 50) \<noteq> Inl (Exception msg)"
    by (simp add: d0)
  have e: "\<forall>msg. min_volatility infeasible_pypfopt sample_mu [[1]] (1 / 50)
             \<noteq> Inl (Exception msg)"
    by (simp add: infeasible_pypfopt_def sample_pypfopt_def)
  have f: "\<forall>msg. max_quadratic_utility infeasible_pypfopt sample_mu [[1]] 1 (1 / 50)
             \<noteq> Inl (Exception msg)"
    by (simp add: infeasible_pypfopt_def sample_pypfopt_def)
  have g: "attempt ''Max Sharpe optimization failed: '' ''max_sharpe''
             (max_sharpe infeasible_pypfopt sample_mu [[1]] (1 / 50))
           = Inr (Failed ''Max Sharpe optimization failed: Solver status: infeasible'')"
    by code_simp
  have h: "attempt ''Min volatility optimization failed: '' ''min_volatility''
             (min_volatility infeasible_pypfopt sample_mu [[1]] (1 / 50))
           = Inr (sample_entry ''min_volatility'')"
    by code_simp
  have i: "attempt ''Max utility optimization failed: '' ''max_utility''
             (max_quadratic_utility infeasible_pypfopt sample_mu [[1]] 1 (1 / 50))
           = Inr (sample_entry ''max_utility'')"
    by code_simp
  from optimization_error_isolated [OF a b c d e f] obtain rep sharpe minvol utility where
    r: "full_portfolio_optimization sample_vnstock infeasible_pypfopt [''AAA'', ''BBB'']
          ''2024-01-01'' ''2024-12-31'' (1 / 50) 1 ''sample_cov'' False = Full_json rep"
    and p: "fr_optimized_portfolios rep
         = [(''max_sharpe'', sharpe), (''min_volatility'', minvol), (''max_utility'', utility)]"
    and s1: "attempt ''Max Sharpe optimization failed: '' ''max_sharpe''
           (max_sharpe infeasible_pypfopt sample_mu [[1]] (1 / 50)) = Inr sharpe"
    and s2: "attempt ''Min volatility optimization failed: '' ''min_volatility''
         (min_volatility infeasible_pypfopt sample_mu [[1]] (1 / 50)) = Inr minvol"
    and s3: "attempt ''Max utility optimization failed: '' ''max_utility''
         (max_quadratic_utility infeasible_pypfopt sample_mu [[1]] 1 (1 / 50)) = Inr utility"
    and ok: "fr_successful_optimizations rep
         = (if success sharpe then [''max_sharpe''] else [])
           @ (if success minvol then [''min_volatility''] else [])
           @ (if success utility then [''max_utility''] else [])"
    and n: "fr_total_portfolios rep = length (fr_successful_optimizations rep)"
    by blast
  have e1: "sharpe = Failed ''Max Sharpe optimization failed: Solver status: infeasible''"
    using g s1 by simp
  have e2: "minvol = sample_entry ''min_volatility''"
    using h s2 by simp
  have e3: "utility = sample_entry ''max_utility''"
    using i s3 by simp
  have "fr_successful_optimizations rep = [''min_volatility'', ''max_utility'']"
    by (simp add: ok e1 e2 e3 sample_entry_def)
  moreover from this have "fr_total_portfolios rep = 2"
    by (simp add: n)
  ultimately show ?thesis
    using a d0 r p e1 e2 e3 by blast
qed

text \<open>
  C2. The claim: in \<^verbatim>\<open>full_portfolio_optimization\<close> the failure of one objective does not
  abort the others; they are still attempted, their results returned, and the summary
  lists the objectives that succeeded. The code does not keep it. For \<^verbatim>\<open>AAA\<close> and \<^verbatim>\<open>BBB\<close>
  with a risk-free rate of 0.5 no expected return (0.1 each) exceeds the rate, and
  \<^verbatim>\<open>max_sharpe\<close> fails with a \<^verbatim>\<open>ValueError\<close>. The block's \<^verbatim>\<open>except OptimizationError\<close> does
  not catch it, the two other blocks are never entered, and the reply is the text of
  the outer handler, without any result, although \<^verbatim>\<open>min_volatility\<close> and
  \<^verbatim>\<open>max_quadratic_utility\<close> succeed on the same returns and covariance.
\<close>

theorem full_optimization_aborted_by_value_error:
  "clean_prices sample_vnstock sample_pypfopt [''AAA'', ''BBB''] ''2024-01-01''
      ''2024-12-31'' = Inr (Cleaned sample_table)
   \<and> mean_historical_return sample_pypfopt sample_table False = Inr sample_mu
   \<and> covariance sample_pypfopt ''sample_cov'' sample_table = Inr [[1]]
   \<and> max_sharpe sample_pypfopt sample_mu [[1]] (1 / 2) = Inl (Exception no_excess_return)
   \<and> min_volatility sample_pypfopt sample_mu [[1]] (1 / 2) = Inr (sample_solution sample_mu)
   \<and> max_quadratic_utility sample_pypfopt sample_mu [[1]] 1 (1 / 2)
       = Inr (sample_solution sample_mu)
   \<and> full_portfolio_optimization sample_vnstock sample_pypfopt [''AAA'', ''BBB'']
       ''2024-01-01'' ''2024-12-31'' (1 / 2) 1 ''sample_cov'' False
       = Message (''Error in full portfolio optimization: '' @ no_excess_return)"
  by code_simp

subsection \<open>The cleaned price table\<close>

lemma lookup_not_Null:
  "lookup d f \<noteq> Null \<Longrightarrow> d \<in> set (map fst (snd f))"
  by (auto simp: lookup_def split: option.splits dest!: map_of_SomeD intro: rev_image_eqI)



lemma outer_join_kept:
  "filter (\<lambda>r. Null \<notin> set (snd r)) (outer_join all_data) =
     map (\<lambda>d. (d, map (lookup d) all_data))
       (filter (\<lambda>d. Null \<notin> set (map (lookup d) all_data))
          (sort (remdups (concat (map (\<lambda>f. map fst (snd f)) all_data)))))"
  by (simp add: outer_join_def filter_map comp_def)





lemma load_series_eq:
  "load_series lib pf s sd ed requested =
     (read_series pf s sd ed (quote_history lib s ''VCI'' sd ed ''1D''), requested @ [s])"
  by (simp add: load_series_def request_history_def)






subsection \<open>No complete data\<close>

lemma clean_prices_empty:
  assumes "fst (fetch_prices lib pf sd ed symbols [] []) = Inr all_data"
    and "all_data \<noteq> []" and "pd_concat all_data = Inr tbl" and "table_empty (dropna tbl)"
  shows "clean_prices lib pf symbols sd ed = Inr (Early (Message no_complete_data))"
  using assms by (simp add: clean_prices_def and_then_def no_complete_data_def)

lemma disjoint_frames_empty:
  assumes "unique_index f" and "unique_index g"
    and "set (map fst (snd f)) \<inter> set (map fst (snd g)) = {}"
  shows "\<exists>tbl. pd_concat [f, g] = Inr tbl \<and> table_empty (dropna tbl)"
proof (cases "same_index [f, g]")
  case True
  then have "map fst (snd g) = map fst (snd f)"
    by (simp add: same_index_def)
  with assms(3) have "snd f = []" by auto
  then have "side_by_side [f, g] = []" by (simp add: side_by_side_def)
  with True show ?thesis
    by (simp add: pd_concat_def dropna_def table_empty_def)
next
  case False
  have "lookup d f = Null \<or> lookup d g = Null" for d
    using assms(3) lookup_not_Null [of d f] lookup_not_Null [of d g] by blast
  then have "filter (\<lambda>d. Null \<notin> set (map (lookup d) [f, g])) idx = []" for idx
    by (simp add: filter_empty_conv) metis
  then have "filter (\<lambda>r. Null \<notin> set (snd r)) (outer_join [f, g]) = []"
    by (simp only: outer_join_kept) simp
  with False assms(1,2) show ?thesis
    by (simp add: pd_concat_def dropna_def table_empty_def)
qed

text \<open>
  C4, as the code has it. When every series was fetched and the table that
  \<^verbatim>\<open>pd.concat\<close> and \<^verbatim>\<open>dropna\<close> leave is empty, \<^verbatim>\<open>calculate_returns\<close>,
  \<^verbatim>\<open>optimize_portfolio\<close> and \<^verbatim>\<open>full_portfolio_optimization\<close> return the text \<^verbatim>\<open>No complete
  data available after cleaning missing values\<close>. Two series whose timestamps do not
  overlap are such a case, provided each of them has one row per timestamp.
\<close>

theorem empty_table_reported:
  "(fst (fetch_prices lib pf sd ed symbols [] []) = Inr all_data \<and> all_data \<noteq> []
      \<and> pd_concat all_data = Inr tbl \<and> table_empty (dropna tbl) \<longrightarrow>
      calculate_returns lib pf symbols sd ed method lr = Message no_complete_data
      \<and> optimize_portfolio lib pf symbols sd ed rfr m lr = Message no_complete_data
      \<and> full_portfolio_optimization lib pf symbols sd ed rfr ra m lr
          = Message no_complete_data)
   \<and> (unique_index f \<and> unique_index g
      \<and> set (map fst (snd f)) \<inter> set (map fst (snd g)) = {} \<longrightarrow>
      (\<exists>tbl. pd_concat [f, g] = Inr tbl \<and> table_empty (dropna tbl)))"
proof (intro conjI impI)
  assume h: "fst (fetch_prices lib pf sd ed symbols [] []) = Inr all_data \<and> all_data \<noteq> []
      \<and> pd_concat all_data = Inr tbl \<and> table_empty (dropna tbl)"
  then have c: "clean_prices lib pf symbols sd ed = Inr (Early (Message no_complete_data))"
    by (simp add: clean_prices_empty)
  show "calculate_returns lib pf symbols sd ed method lr = Message no_complete_data"
    by (simp add: calculate_returns_def c and_then_def except_as_def)
  show "optimize_portfolio lib pf symbols sd ed rfr m lr = Message no_complete_data"
    by (simp add: optimize_portfolio_def c and_then_def optimize_except_def)
  show "full_portfolio_optimization lib pf symbols sd ed rfr ra m lr = Message no_complete_data"
    by (simp add: full_portfolio_optimization_def c and_then_def except_as_def)
next
  assume "unique_index f \<and> unique_index g
      \<and> set (map fst (snd f)) \<inter> set (map fst (snd g)) = {}"
  then show "\<exists>tbl. pd_concat [f, g] = Inr tbl \<and> table_empty (dropna tbl)"
    by (simp add: disjoint_frames_empty)
qed

theorem empty_table_reported_witness:
  "fst (fetch_prices sample_vnstock sample_pypfopt ''2024-01-01'' ''2024-12-31''
        [''AAA'', ''CCC''] [] []) = Inr disjoint_frames
   \<and> pd_concat disjoint_frames = Inr disjoint_joined
   \<and> table_empty (dropna disjoint_joined)
   \<and> calculate_returns sample_vnstock sample_pypfopt [''AAA'', ''CCC''] ''2024-01-01''
        ''2024-12-31'' ''mean_historical'' False = Message no_complete_data
   \<and> optimize_portfolio sample_vnstock sample_pypfopt [''AAA'', ''CCC''] ''2024-01-01''
        ''2024-12-31'' (1 / 50) ''sample_cov'' False = Message no_complete_data
   \<and> full_portfolio_optimization sample_vnstock sample_pypfopt [''AAA'', ''CCC'']
        ''2024-01-01'' ''2024-12-31'' (1 / 50) 1 ''sample_cov'' False
        = Message no_complete_data"
proof -
  have a: "fst (fetch_prices sample_vnstock sample_pypfopt ''2024-01-01'' ''2024-12-31''
        [''AAA'', ''CCC''] [] []) = Inr disjoint_frames" by code_simp
  have b: "disjoint_frames \<noteq> []" by (simp add: disjoint_frames_def)
  have c: "pd_concat disjoint_frames = Inr disjoint_joined" by code_simp
  have d: "table_empty (dropna disjoint_joined)" by code_simp
  have e: "unique_index (hd disjoint_frames) \<and> unique_index (hd (tl disjoint_frames))
      \<and> set (map fst (snd (hd disjoint_frames)))
            \<inter> set (map fst (snd (hd (tl disjoint_frames)))) = {}"
    by (simp add: disjoint_frames_def unique_index_def)
  from empty_table_reported [of sample_vnstock sample_pypfopt "''2024-01-01''" "''2024-12-31''"
      "[''AAA'', ''CCC'']" disjoint_frames disjoint_joined "''mean_historical''" False
      "1 / 50" "''sample_cov''" 1 "hd disjoint_frames" "hd (tl disjoint_frames)"] a b c d e
  show ?thesis by simp
qed

text \<open>
  The claim as the specification states it (any two symbols with disjoint date ranges
  give the no-complete-data text, not a failure) fails when a series repeats a
  timestamp: \<^verbatim>\<open>AAA\<close> and \<^verbatim>\<open>DUP\<close> share no day, \<^verbatim>\<open>pd.concat\<close> cannot align \<^verbatim>\<open>DUP\<close> and raises,
  and the reply is the error text of the outer handler.
\<close>

theorem empty_table_reported_counterexample:
  "fst (fetch_prices sample_vnstock sample_pypfopt ''2024-01-01'' ''2024-12-31''
        [''AAA'', ''DUP''] [] []) = Inr repeating_frames
   \<and> set (map fst (snd (hd repeating_frames)))
        \<inter> set (map fst (snd (hd (tl repeating_frames)))) = {}
   \<and> optimize_portfolio sample_vnstock sample_pypfopt [''AAA'', ''DUP''] ''2024-01-01''
        ''2024-12-31'' (1 / 50) ''sample_cov'' False
        = Message ''Error optimizing portfolio: Reindexing only valid with uniquely valued Index objects''
   \<and> optimize_portfolio sample_vnstock sample_pypfopt [''AAA'', ''DUP''] ''2024-01-01''
        ''2024-12-31'' (1 / 50) ''sample_cov'' False \<noteq> Message no_complete_data"
proof -
  have a: "fst (fetch_prices sample_vnstock sample_pypfopt ''2024-01-01'' ''2024-12-31''
        [''AAA'', ''DUP''] [] []) = Inr repeating_frames" by code_simp
  have b: "set (map fst (snd (hd repeating_frames)))
        \<inter> set (map fst (snd (hd (tl repeating_frames)))) = {}"
    by (simp add: repeating_frames_def)
  have c: "optimize_portfolio sample_vnstock sample_pypfopt [''AAA'', ''DUP''] ''2024-01-01''
        ''2024-12-31'' (1 / 50) ''sample_cov'' False
        = Message ''Error optimizing portfolio: Reindexing only valid with uniquely valued Index objects''"
    by code_simp
  from a b c show ?thesis by (simp add: no_complete_data_def)
qed

subsection \<open>Fetching the series one after another\<close>

lemma fetch_prices_stops:
  assumes "\<forall>p \<in> set pre.
             \<exists>f. read_series pf p sd ed (quote_history lib p ''VCI'' sd ed ''1D'') = Inr f"
    and "read_series pf s sd ed (quote_history lib s ''VCI'' sd ed ''1D'') = Inl msg"
  shows "fetch_prices lib pf sd ed (pre @ s # post) acc requested
           = (Inl msg, requested @ pre @ [s])"
  using assms
proof (induction pre arbitrary: acc requested)
  case Nil
  then show ?case by (simp add: load_series_eq)
next
  case (Cons p pre)
  from Cons.prems(1) obtain f where
    f: "read_series pf p sd ed (quote_history lib p ''VCI'' sd ed ''1D'') = Inr f" by auto
  from Cons.prems have
    "fetch_prices lib pf sd ed (pre @ s # post) (acc @ [f]) (requested @ [p])
       = (Inl msg, (requested @ [p]) @ pre @ [s])"
    by (intro Cons.IH) auto
  with f show ?case by (simp add: load_series_eq)
qed

lemma fetch_prices_all:
  assumes "\<forall>p \<in> set symbols.
             \<exists>f. read_series pf p sd ed (quote_history lib p ''VCI'' sd ed ''1D'') = Inr f"
  shows "snd (fetch_prices lib pf sd ed symbols acc requested) = requested @ symbols"
  using assms
proof (induction symbols arbitrary: acc requested)
  case Nil
  then show ?case by simp
next
  case (Cons p symbols)
  from Cons.prems obtain f where
    f: "read_series pf p sd ed (quote_history lib p ''VCI'' sd ed ''1D'') = Inr f" by auto
  from Cons.prems have
    "snd (fetch_prices lib pf sd ed symbols (acc @ [f]) (requested @ [p]))
       = (requested @ [p]) @ symbols"
    by (intro Cons.IH) auto
  with f show ?case by (simp add: load_series_eq)
qed

lemma fetch_prices_initial:
  "\<exists>asked rest. snd (fetch_prices lib pf sd ed symbols acc requested) = requested @ asked
      \<and> symbols = asked @ rest"
proof (induction symbols arbitrary: acc requested)
  case Nil
  then show ?case by simp
next
  case (Cons s symbols)
  show ?case
  proof (cases "read_series pf s sd ed (quote_history lib s ''VCI'' sd ed ''1D'')")
    case (Inl msg)
    then have "snd (fetch_prices lib pf sd ed (s # symbols) acc requested) = requested @ [s]"
      by (simp add: load_series_eq)
    then show ?thesis by (intro exI [of _ "[s]"] exI [of _ symbols]) simp
  next
    case (Inr f)
    from Cons.IH [of "acc @ [f]" "requested @ [s]"] obtain asked rest where
      a: "snd (fetch_prices lib pf sd ed symbols (acc @ [f]) (requested @ [s]))
            = (requested @ [s]) @ asked" "symbols = asked @ rest"
      by blast
    with Inr have "snd (fetch_prices lib pf sd ed (s # symbols) acc requested)
            = requested @ (s # asked)"
      by (simp add: load_series_eq)
    with a(2) show ?thesis by (intro exI [of _ "s # asked"] exI [of _ rest]) simp
  qed
qed

lemma read_series_text:
  assumes "read_series pf s sd ed history = Inl msg"
  shows "(\<forall>e. history = Inl e \<longrightarrow> msg = ''Error fetching data for '' @ s @ '': '' @ str e)
       \<and> (history = Inr None
            \<longrightarrow> msg = ''No data found for '' @ s @ '' between '' @ sd @ '' and '' @ ed)
       \<and> (\<forall>df. history = Inr (Some df) \<and> empty df
            \<longrightarrow> msg = ''No data found for '' @ s @ '' between '' @ sd @ '' and '' @ ed)"
  using assms by (auto simp: read_series_def)

text \<open>
  C5. The data source is asked for one symbol after the other, in the order of the
  symbols list: the requests a run of the loop adds to the list of requests are always
  an initial part of the symbols list, and the whole list when every symbol loads.
  When the symbols before \<open>s\<close> load and \<open>s\<close> fails, the requests added are exactly those
  up to \<open>s\<close>, none for a later symbol, and the three portfolio tools return the text
  for \<open>s\<close>: \<^verbatim>\<open>Error fetching data for <s>: <message>\<close> after an exception, \<^verbatim>\<open>No data found
  for <s> between <start> and <end>\<close> after an empty result.
\<close>

theorem fetch_sequential_abort:
  assumes "\<forall>p \<in> set pre.
             \<exists>f. read_series pf p sd ed (quote_history lib p ''VCI'' sd ed ''1D'') = Inr f"
    and "read_series pf s sd ed (quote_history lib s ''VCI'' sd ed ''1D'') = Inl msg"
  shows "fetch_prices lib pf sd ed (pre @ s # post) [] requested
           = (Inl msg, requested @ pre @ [s])
     \<and> calculate_returns lib pf (pre @ s # post) sd ed method lr = Message msg
     \<and> optimize_portfolio lib pf (pre @ s # post) sd ed rfr m lr = Message msg
     \<and> full_portfolio_optimization lib pf (pre @ s # post) sd ed rfr ra m lr = Message msg
     \<and> (\<forall>e. quote_history lib s ''VCI'' sd ed ''1D'' = Inl e
            \<longrightarrow> msg = ''Error fetching data for '' @ s @ '': '' @ str e)
     \<and> (quote_history lib s ''VCI'' sd ed ''1D'' = Inr None
            \<longrightarrow> msg = ''No data found for '' @ s @ '' between '' @ sd @ '' and '' @ ed)
     \<and> (\<forall>df. quote_history lib s ''VCI'' sd ed ''1D'' = Inr (Some df) \<and> empty df
            \<longrightarrow> msg = ''No data found for '' @ s @ '' between '' @ sd @ '' and '' @ ed)
     \<and> (\<forall>symbols. \<exists>asked rest.
            snd (fetch_prices lib pf sd ed symbols [] requested) = requested @ asked
            \<and> symbols = asked @ rest)
     \<and> (\<forall>symbols.
            (\<forall>p \<in> set symbols.
               \<exists>f. read_series pf p sd ed (quote_history lib p ''VCI'' sd ed ''1D'') = Inr f)
            \<longrightarrow> snd (fetch_prices lib pf sd ed symbols [] requested) = requested @ symbols)"
proof -
  have f: "fetch_prices lib pf sd ed (pre @ s # post) [] requested
             = (Inl msg, requested @ pre @ [s])" for requested
    using assms by (rule fetch_prices_stops)
  then have c: "clean_prices lib pf (pre @ s # post) sd ed = Inr (Early (Message msg))"
    by (simp add: clean_prices_def)
  have "calculate_returns lib pf (pre @ s # post) sd ed method lr = Message msg"
    by (simp add: calculate_returns_def c and_then_def except_as_def)
  moreover have "optimize_portfolio lib pf (pre @ s # post) sd ed rfr m lr = Message msg"
    by (simp add: optimize_portfolio_def c and_then_def optimize_except_def)
  moreover have
    "full_portfolio_optimization lib pf (pre @ s # post) sd ed rfr ra m lr = Message msg"
    by (simp add: full_portfolio_optimization_def c and_then_def except_as_def)
  ultimately show ?thesis
    using f read_series_text [OF assms(2)] fetch_prices_initial fetch_prices_all by blast
qed

theorem fetch_sequential_abort_witness:
  "fetch_prices sample_vnstock sample_pypfopt ''2024-01-01'' ''2024-12-31''
       [''AAA'', ''ZZZ'', ''BBB''] [] []
     = (Inl ''No data found for ZZZ between 2024-01-01 and 2024-12-31'', [''AAA'', ''ZZZ''])
   \<and> optimize_portfolio sample_vnstock sample_pypfopt [''AAA'', ''ZZZ'', ''BBB'']
       ''2024-01-01'' ''2024-12-31'' (1 / 50) ''sample_cov'' False
     = Message ''No data found for ZZZ between 2024-01-01 and 2024-12-31''"
proof -
  have a: "\<forall>p \<in> set [''AAA'']. \<exists>f. read_series sample_pypfopt p ''2024-01-01'' ''2024-12-31''
             (quote_history sample_vnstock p ''VCI'' ''2024-01-01'' ''2024-12-31'' ''1D'')
             = Inr f"
  proof -
    have "read_series sample_pypfopt ''AAA'' ''2024-01-01'' ''2024-12-31''
            (quote_history sample_vnstock ''AAA'' ''VCI'' ''2024-01-01'' ''2024-12-31'' ''1D'')
            = Inr (hd sample_frames)" by code_simp
    then show ?thesis by simp
  qed
  have b: "read_series sample_pypfopt ''ZZZ'' ''2024-01-01'' ''2024-12-31''
             (quote_history sample_vnstock ''ZZZ'' ''VCI'' ''2024-01-01'' ''2024-12-31'' ''1D'')
             = Inl ''No data found for ZZZ between 2024-01-01 and 2024-12-31''"
    by code_simp
  from fetch_sequential_abort [OF a b, of "[''BBB'']" "[]" "''mean_historical''" False "1 / 50"
      "''sample_cov''" 1]
  show ?thesis by simp
qed

subsection \<open>Exceptions at the tool boundary\<close>

lemma stock_history_raises:
  "(quote_history lib symbol ''VCI'' sd ed interval = Inl e
      \<longrightarrow> get_stock_history lib symbol sd ed interval = Message (''Error fetching stock data: '' @ str e))"
  by (simp add: get_stock_history_def and_then_def except_as_def)

lemma forex_history_raises:
  "(fx_history lib symbol ''MSN'' sd ed interval = Inl e
      \<longrightarrow> get_forex_history lib symbol sd ed interval = Message (''Error fetching forex data: '' @ str e))"
  by (simp add: get_forex_history_def and_then_def except_as_def)

lemma crypto_history_raises:
  "(crypto_history lib symbol ''MSN'' sd ed interval = Inl e
      \<longrightarrow> get_crypto_history lib symbol sd ed interval = Message (''Error fetching crypto data: '' @ str e))"
  by (simp add: get_crypto_history_def and_then_def except_as_def)

lemma index_history_raises:
  "((if upper symbol \<in> set vietnam_indices
          then quote_history lib symbol ''VCI'' sd ed interval
          else world_index_history lib symbol ''MSN'' sd ed interval) = Inl e
      \<longrightarrow> get_index_history lib symbol sd ed interval = Message (''Error fetching index data: '' @ str e))"
  by (simp add: get_index_history_def and_then_def except_as_def)

lemma sjc_raises:
  "(sjc_gold_price lib date = Inl e
      \<longrightarrow> get_sjc_gold_price lib date = Message (''Error fetching SJC gold prices: '' @ str e))"
  by (simp add: get_sjc_gold_price_def and_then_def except_as_def)

lemma btmc_raises:
  "(btmc_goldprice lib = Inl e
      \<longrightarrow> get_btmc_gold_price lib = Message (''Error fetching BTMC gold prices: '' @ str e))"
  by (simp add: get_btmc_gold_price_def and_then_def except_as_def)

lemma vcb_raises:
  "(vcb_exchange_rate lib day = Inl e
      \<longrightarrow> get_vcb_exchange_rate lib day = Message (''Error fetching VCB exchange rates: '' @ str e))"
  by (simp add: get_vcb_exchange_rate_def and_then_def except_as_def)

lemma fund_listing_raises:
  "(fund_listing lib fund_type = Inl e
      \<longrightarrow> get_fund_listing lib fund_type = Message (''Error fetching fund listing: '' @ str e))"
  by (simp add: get_fund_listing_def and_then_def except_as_def)

lemma search_funds_raises:
  "(fund_filter lib symbol = Inl e
      \<longrightarrow> search_funds lib symbol = Message (''Error searching funds: '' @ str e))"
  by (simp add: search_funds_def and_then_def except_as_def)

lemma nav_report_raises:
  "(nav_report lib (upper symbol) = Inl e
      \<longrightarrow> get_fund_nav_report lib symbol = Message ((''Error fetching NAV report for '' @ symbol @ '': '') @ str e))"
  by (simp add: get_fund_nav_report_def and_then_def except_as_def)

lemma top_holding_raises:
  "(top_holding lib (upper symbol) = Inl e
      \<longrightarrow> get_fund_top_holdings lib symbol = Message ((''Error fetching top holdings for '' @ symbol @ '': '') @ str e))"
  by (simp add: get_fund_top_holdings_def and_then_def except_as_def)

lemma industry_holding_raises:
  "(industry_holding lib (upper symbol) = Inl e
      \<longrightarrow> get_fund_industry_allocation lib symbol = Message ((''Error fetching industry allocation for '' @ symbol @ '': '') @ str e))"
  by (simp add: get_fund_industry_allocation_def and_then_def except_as_def)

lemma asset_holding_raises:
  "(asset_holding lib (upper symbol) = Inl e
      \<longrightarrow> get_fund_asset_allocation lib symbol = Message ((''Error fetching asset allocation for '' @ symbol @ '': '') @ str e))"
  by (simp add: get_fund_asset_allocation_def and_then_def except_as_def)

lemma income_statement_raises:
  "((stock lib (upper symbol) ''VCI'' = Inl e
       \<or> (\<exists>h. stock lib (upper symbol) ''VCI'' = Inr h \<and> income_statement lib h ''year'' lang = Inl e)
       \<or> (\<exists>h d. stock lib (upper symbol) ''VCI'' = Inr h
             \<and> income_statement lib h ''year'' lang = Inr (Some d) \<and> \<not> empty d
             \<and> sort_values ''yearReport'' d = Inl e))
      \<longrightarrow> get_income_statement lib symbol lang = Message (''Error fetching income statement for '' @ symbol @ '': '' @ str e))"
  by (auto simp: get_income_statement_def and_then_def except_as_def)

lemma balance_sheet_raises:
  "((stock lib (upper symbol) ''VCI'' = Inl e
       \<or> (\<exists>h. stock lib (upper symbol) ''VCI'' = Inr h \<and> balance_sheet lib h ''year'' lang = Inl e)
       \<or> (\<exists>h d. stock lib (upper symbol) ''VCI'' = Inr h
             \<and> balance_sheet lib h ''year'' lang = Inr (Some d) \<and> \<not> empty d
             \<and> sort_values ''yearReport'' d = Inl e))
      \<longrightarrow> get_balance_sheet lib symbol lang = Message (''Error fetching balance sheet for '' @ symbol @ '': '' @ str e))"
  by (auto simp: get_balance_sheet_def and_then_def except_as_def)

lemma cash_flow_raises:
  "((stock lib (upper symbol) ''VCI'' = Inl e
       \<or> (\<exists>h. stock lib (upper symbol) ''VCI'' = Inr h \<and> cash_flow lib h ''year'' lang = Inl e)
       \<or> (\<exists>h d. stock lib (upper symbol) ''VCI'' = Inr h
             \<and> cash_flow lib h ''year'' lang = Inr (Some d) \<and> \<not> empty d
             \<and> sort_values ''yearReport'' d = Inl e))
      \<longrightarrow> get_cash_flow lib symbol lang = Message (''Error fetching cash flow for '' @ symbol @ '': '' @ str e))"
  by (auto simp: get_cash_flow_def and_then_def except_as_def)

lemma financial_ratios_raises:
  "((stock lib (upper symbol) ''VCI'' = Inl e
       \<or> (\<exists>h. stock lib (upper symbol) ''VCI'' = Inr h \<and> ratio lib h ''year'' lang = Inl e)
       \<or> (\<exists>h d. stock lib (upper symbol) ''VCI'' = Inr h
             \<and> ratio lib h ''year'' lang = Inr (Some d) \<and> \<not> empty d
             \<and> flatten_hierarchical_index lib d = Inl e)
       \<or> (\<exists>h d flat. stock lib (upper symbol) ''VCI'' = Inr h
             \<and> ratio lib h ''year'' lang = Inr (Some d) \<and> \<not> empty d
             \<and> flatten_hierarchical_index lib d = Inr flat
             \<and> ''yearReport'' \<in> set (columns flat)
             \<and> sort_values ''yearReport'' flat = Inl e))
      \<longrightarrow> get_financial_ratios lib symbol lang
            = Message (''Error fetching financial ratios for '' @ symbol @ '': '' @ str e))"
  by (auto simp: get_financial_ratios_def and_then_def except_as_def)

lemma dividend_history_raises:
  "((stock lib (upper symbol) ''TCBS'' = Inl e
       \<or> (\<exists>h. stock lib (upper symbol) ''TCBS'' = Inr h \<and> dividends lib h = Inl e))
      \<longrightarrow> get_dividend_history lib symbol
            = Message (''Error fetching dividend history for '' @ symbol @ '': '' @ str e))"
  by (auto simp: get_dividend_history_def and_then_def except_as_def)

lemma company_info_raises:
  "((stock lib (upper symbol) ''VCI'' = Inl e
       \<or> (\<exists>h. stock lib (upper symbol) ''VCI'' = Inr h
             \<and> company_call lib h info_type = Some (Inl e)))
      \<longrightarrow> get_company_info lib symbol info_type lang
            = Message (''Error fetching '' @ info_type @ '' for '' @ symbol @ '': '' @ str e))"
  by (auto simp: get_company_info_def and_then_def except_as_def)

lemma fetch_raises:
  "((\<forall>p \<in> set pre.
          \<exists>f. read_series pf p sd ed (quote_history lib p ''VCI'' sd ed ''1D'') = Inr f)
       \<and> (quote_history lib s ''VCI'' sd ed ''1D'' = Inl e
          \<or> (\<exists>df. quote_history lib s ''VCI'' sd ed ''1D'' = Inr (Some df) \<and> \<not> empty df
                \<and> price_series pf df = Inl e))
      \<longrightarrow> calculate_returns lib pf (pre @ s # post) sd ed method lr
            = Message (''Error fetching data for '' @ s @ '': '' @ str e)
        \<and> optimize_portfolio lib pf (pre @ s # post) sd ed rfr m lr
            = Message (''Error fetching data for '' @ s @ '': '' @ str e)
        \<and> full_portfolio_optimization lib pf (pre @ s # post) sd ed rfr ra m lr
            = Message (''Error fetching data for '' @ s @ '': '' @ str e))"
  proof (intro impI, elim conjE)
  assume pre: "\<forall>p \<in> set pre.
          \<exists>f. read_series pf p sd ed (quote_history lib p ''VCI'' sd ed ''1D'') = Inr f"
    and q: "quote_history lib s ''VCI'' sd ed ''1D'' = Inl e
          \<or> (\<exists>df. quote_history lib s ''VCI'' sd ed ''1D'' = Inr (Some df) \<and> \<not> empty df
                \<and> price_series pf df = Inl e)"
  from q have l: "read_series pf s sd ed (quote_history lib s ''VCI'' sd ed ''1D'')
                    = Inl (''Error fetching data for '' @ s @ '': '' @ str e)"
    by (auto simp: read_series_def)
  have "fetch_prices lib pf sd ed (pre @ s # post) [] []
          = (Inl (''Error fetching data for '' @ s @ '': '' @ str e), [] @ pre @ [s])"
    using pre l by (rule fetch_prices_stops)
  then have c: "clean_prices lib pf (pre @ s # post) sd ed
                  = Inr (Early (Message (''Error fetching data for '' @ s @ '': '' @ str e)))"
    by (simp add: clean_prices_def)
  show "calculate_returns lib pf (pre @ s # post) sd ed method lr
            = Message (''Error fetching data for '' @ s @ '': '' @ str e)
        \<and> optimize_portfolio lib pf (pre @ s # post) sd ed rfr m lr
            = Message (''Error fetching data for '' @ s @ '': '' @ str e)
        \<and> full_portfolio_optimization lib pf (pre @ s # post) sd ed rfr ra m lr
            = Message (''Error fetching data for '' @ s @ '': '' @ str e)"
    by (simp add: calculate_returns_def optimize_portfolio_def full_portfolio_optimization_def
        c and_then_def except_as_def optimize_except_def)
qed

lemma calculate_returns_raises:
  "((clean_prices lib pf symbols sd ed = Inl e
       \<or> (\<exists>t. clean_prices lib pf symbols sd ed = Inr (Cleaned t)
             \<and> mean_historical_return pf t lr = Inl e))
      \<longrightarrow> calculate_returns lib pf symbols sd ed method lr
            = Message (''Error calculating returns: '' @ str e))"
  by (auto simp: calculate_returns_def and_then_def except_as_def)

lemma optimize_portfolio_raises:
  "((clean_prices lib pf symbols sd ed = Inl e
       \<or> (\<exists>t. clean_prices lib pf symbols sd ed = Inr (Cleaned t)
             \<and> (mean_historical_return pf t lr = Inl e
                \<or> (\<exists>mu. mean_historical_return pf t lr = Inr mu
                      \<and> (covariance pf m t = Inl e
                         \<or> (\<exists>S. covariance pf m t = Inr S
                               \<and> max_sharpe pf mu S rfr = Inl e))))))
      \<longrightarrow> optimize_portfolio lib pf symbols sd ed rfr m lr
            = (case e of
                 OptimizationError msg \<Rightarrow> Message (''Optimization failed: '' @ msg)
               | Exception msg \<Rightarrow> Message (''Error optimizing portfolio: '' @ msg)))"
  by (auto simp: optimize_portfolio_def and_then_def optimize_except_def split: exn.splits)

lemma full_portfolio_raises:
  "((clean_prices lib pf symbols sd ed = Inl e
       \<or> (\<exists>t. clean_prices lib pf symbols sd ed = Inr (Cleaned t)
             \<and> (mean_historical_return pf t lr = Inl e
                \<or> (\<exists>mu. mean_historical_return pf t lr = Inr mu
                      \<and> (covariance pf m t = Inl e
                         \<or> (\<exists>S msg. covariance pf m t = Inr S \<and> e = Exception msg
                               \<and> (max_sharpe pf mu S rfr = Inl e
                                  \<or> (\<forall>x. max_sharpe pf mu S rfr \<noteq> Inl (Exception x))
                                    \<and> (min_volatility pf mu S rfr = Inl e
                                       \<or> (\<forall>x. min_volatility pf mu S rfr
                                                  \<noteq> Inl (Exception x))
                                         \<and> max_quadratic_utility pf mu S ra rfr = Inl e))))))))
      \<longrightarrow> full_portfolio_optimization lib pf symbols sd ed rfr ra m lr
            = Message (''Error in full portfolio optimization: '' @ str e))"
  by (auto simp: full_portfolio_optimization_def and_then_def except_as_def attempt_def
      split: sum.splits exn.splits)

lemma clean_prices_raises:
  "(clean_prices lib pf symbols sd ed = Inl e
      \<longrightarrow> (\<exists>all_data. fst (fetch_prices lib pf sd ed symbols [] []) = Inr all_data
             \<and> pd_concat all_data = Inl e))"
  by (auto simp: clean_prices_def and_then_def split: sum.splits if_splits)

text \<open>
  C6, as the code has it. Every exception raised by a library call inside a tool is
  caught by a handler of that tool and the tool returns a text. For each call site the
  text is the handler's prefix, which names the operation, followed by the message of
  the exception: \<^verbatim>\<open>Error <doing something>: <message>\<close>. There are two exceptions to
  that form. \<^verbatim>\<open>optimize_portfolio\<close> returns \<^verbatim>\<open>Optimization failed: <message>\<close> for an
  \<^verbatim>\<open>OptimizationError\<close>; and in \<^verbatim>\<open>full_portfolio_optimization\<close> only an exception other
  than \<^verbatim>\<open>OptimizationError\<close> leaves the block of an objective. The last conjunct says
  where an exception of the shared cleaning step comes from: the outer join.
\<close>

theorem exceptions_become_text:
  "(quote_history lib symbol ''VCI'' sd ed interval = Inl e
      \<longrightarrow> get_stock_history lib symbol sd ed interval = Message (''Error fetching stock data: '' @ str e))
   \<and> (fx_history lib symbol ''MSN'' sd ed interval = Inl e
      \<longrightarrow> get_forex_history lib symbol sd ed interval = Message (''Error fetching forex data: '' @ str e))
   \<and> (crypto_history lib symbol ''MSN'' sd ed interval = Inl e
      \<longrightarrow> get_crypto_history lib symbol sd ed interval = Message (''Error fetching crypto data: '' @ str e))
   \<and> ((if upper symbol \<in> set vietnam_indices
          then quote_history lib symbol ''VCI'' sd ed interval
          else world_index_history lib symbol ''MSN'' sd ed interval) = Inl e
      \<longrightarrow> get_index_history lib symbol sd ed interval = Message (''Error fetching index data: '' @ str e))
   \<and> (sjc_gold_price lib date = Inl e
      \<longrightarrow> get_sjc_gold_price lib date = Message (''Error fetching SJC gold prices: '' @ str e))
   \<and> (btmc_goldprice lib = Inl e
      \<longrightarrow> get_btmc_gold_price lib = Message (''Error fetching BTMC gold prices: '' @ str e))
   \<and> (vcb_exchange_rate lib day = Inl e
      \<longrightarrow> get_vcb_exchange_rate lib day = Message (''Error fetching VCB exchange rates: '' @ str e))
   \<and> (fund_listing lib fund_type = Inl e
      \<longrightarrow> get_fund_listing lib fund_type = Message (''Error fetching fund listing: '' @ str e))
   \<and> (fund_filter lib symbol = Inl e
      \<longrightarrow> search_funds lib symbol = Message (''Error searching funds: '' @ str e))
   \<and> (nav_report lib (upper symbol) = Inl e
      \<longrightarrow> get_fund_nav_report lib symbol = Message ((''Error fetching NAV report for '' @ symbol @ '': '') @ str e))
   \<and> (top_holding lib (upper symbol) = Inl e
      \<longrightarrow> get_fund_top_holdings lib symbol = Message ((''Error fetching top holdings for '' @ symbol @ '': '') @ str e))
   \<and> (industry_holding lib (upper symbol) = Inl e
      \<longrightarrow> get_fund_industry_allocation lib symbol = Message ((''Error fetching industry allocation for '' @ symbol @ '': '') @ str e))
   \<and> (asset_holding lib (upper symbol) = Inl e
      \<longrightarrow> get_fund_asset_allocation lib symbol = Message ((''Error fetching asset allocation for '' @ symbol @ '': '') @ str e))
   \<and> ((stock lib (upper symbol) ''VCI'' = Inl e
       \<or> (\<exists>h. stock lib (upper symbol) ''VCI'' = Inr h \<and> income_statement lib h ''year'' lang = Inl e)
       \<or> (\<exists>h d. stock lib (upper symbol) ''VCI'' = Inr h
             \<and> income_statement lib h ''year'' lang = Inr (Some d) \<and> \<not> empty d
             \<and> sort_values ''yearReport'' d = Inl e))
      \<longrightarrow> get_income_statement lib symbol lang = Message (''Error fetching income statement for '' @ symbol @ '': '' @ str e))
   \<and> ((stock lib (upper symbol) ''VCI'' = Inl e
       \<or> (\<exists>h. stock lib (upper symbol) ''VCI'' = Inr h \<and> balance_sheet lib h ''year'' lang = Inl e)
       \<or> (\<exists>h d. stock lib (upper symbol) ''VCI'' = Inr h
             \<and> balance_sheet lib h ''year'' lang = Inr (Some d) \<and> \<not> empty d
             \<and> sort_values ''yearReport'' d = Inl e))
      \<longrightarrow> get_balance_sheet lib symbol lang = Message (''Error fetching balance sheet for '' @ symbol @ '': '' @ str e))
   \<and> ((stock lib (upper symbol) ''VCI'' = Inl e
       \<or> (\<exists>h. stock lib (upper symbol) ''VCI'' = Inr h \<and> cash_flow lib h ''year'' lang = Inl e)
       \<or> (\<exists>h d. stock lib (upper symbol) ''VCI'' = Inr h
             \<and> cash_flow lib h ''year'' lang = Inr (Some d) \<and> \<not> empty d
             \<and> sort_values ''yearReport'' d = Inl e))
      \<longrightarrow> get_cash_flow lib symbol lang = Message (''Error fetching cash flow for '' @ symbol @ '': '' @ str e))
   \<and> ((stock lib (upper symbol) ''VCI'' = Inl e
       \<or> (\<exists>h. stock lib (upper symbol) ''VCI'' = Inr h \<and> ratio lib h ''year'' lang = Inl e)
       \<or> (\<exists>h d. stock lib (upper symbol) ''VCI'' = Inr h
             \<and> ratio lib h ''year'' lang = Inr (Some d) \<and> \<not> empty d
             \<and> flatten_hierarchical_index lib d = Inl e)
       \<or> (\<exists>h d flat. stock lib (upper symbol) ''VCI'' = Inr h
             \<and> ratio lib h ''year'' lang = Inr (Some d) \<and> \<not> empty d
             \<and> flatten_hierarchical_index lib d = Inr flat
             \<and> ''yearReport'' \<in> set (columns flat)
             \<and> sort_values ''yearReport'' flat = Inl e))
      \<longrightarrow> get_financial_ratios lib symbol lang
            = Message (''Error fetching financial ratios for '' @ symbol @ '': '' @ str e))
   \<and> ((stock lib (upper symbol) ''TCBS'' = Inl e
       \<or> (\<exists>h. stock lib (upper symbol) ''TCBS'' = Inr h \<and> dividends lib h = Inl e))
      \<longrightarrow> get_dividend_history lib symbol
            = Message (''Error fetching dividend history for '' @ symbol @ '': '' @ str e))
   \<and> ((stock lib (upper symbol) ''VCI'' = Inl e
       \<or> (\<exists>h. stock lib (upper symbol) ''VCI'' = Inr h
             \<and> company_call lib h info_type = Some (Inl e)))
      \<longrightarrow> get_company_info lib symbol info_type lang
            = Message (''Error fetching '' @ info_type @ '' for '' @ symbol @ '': '' @ str e))
   \<and> ((\<forall>p \<in> set pre.
          \<exists>f. read_series pf p sd ed (quote_history lib p ''VCI'' sd ed ''1D'') = Inr f)
       \<and> (quote_history lib s ''VCI'' sd ed ''1D'' = Inl e
          \<or> (\<exists>df. quote_history lib s ''VCI'' sd ed ''1D'' = Inr (Some df) \<and> \<not> empty df
                \<and> price_series pf df = Inl e))
      \<longrightarrow> calculate_returns lib pf (pre @ s # post) sd ed method lr
            = Message (''Error fetching data for '' @ s @ '': '' @ str e)
        \<and> optimize_portfolio lib pf (pre @ s # post) sd ed rfr m lr
            = Message (''Error fetching data for '' @ s @ '': '' @ str e)
        \<and> full_portfolio_optimization lib pf (pre @ s # post) sd ed rfr ra m lr
            = Message (''Error fetching data for '' @ s @ '': '' @ str e))
   \<and> ((clean_prices lib pf symbols sd ed = Inl e
       \<or> (\<exists>t. clean_prices lib pf symbols sd ed = Inr (Cleaned t)
             \<and> mean_historical_return pf t lr = Inl e))
      \<longrightarrow> calculate_returns lib pf symbols sd ed method lr
            = Message (''Error calculating returns: '' @ str e))
   \<and> ((clean_prices lib pf symbols sd ed = Inl e
       \<or> (\<exists>t. clean_prices lib pf symbols sd ed = Inr (Cleaned t)
             \<and> (mean_historical_return pf t lr = Inl e
                \<or> (\<exists>mu. mean_historical_return pf t lr = Inr mu
                      \<and> (covariance pf m t = Inl e
                         \<or> (\<exists>S. covariance pf m t = Inr S
                               \<and> max_sharpe pf mu S rfr = Inl e))))))
      \<longrightarrow> optimize_portfolio lib pf symbols sd ed rfr m lr
            = (case e of
                 OptimizationError msg \<Rightarrow> Message (''Optimization failed: '' @ msg)
               | Exception msg \<Rightarrow> Message (''Error optimizing portfolio: '' @ msg)))
   \<and> ((clean_prices lib pf symbols sd ed = Inl e
       \<or> (\<exists>t. clean_prices lib pf symbols sd ed = Inr (Cleaned t)
             \<and> (mean_historical_return pf t lr = Inl e
                \<or> (\<exists>mu. mean_historical_return pf t lr = Inr mu
                      \<and> (covariance pf m t = Inl e
                         \<or> (\<exists>S msg. covariance pf m t = Inr S \<and> e = Exception msg
                               \<and> (max_sharpe pf mu S rfr = Inl e
                                  \<or> (\<forall>x. max_sharpe pf mu S rfr \<noteq> Inl (Exception x))
                                    \<and> (min_volatility pf mu S rfr = Inl e
                                       \<or> (\<forall>x. min_volatility pf mu S rfr
                                                  \<noteq> Inl (Exception x))
                                         \<and> max_quadratic_utility pf mu S ra rfr = Inl e))))))))
      \<longrightarrow> full_portfolio_optimization lib pf symbols sd ed rfr ra m lr
            = Message (''Error in full portfolio optimization: '' @ str e))
   \<and> (clean_prices lib pf symbols sd ed = Inl e
      \<longrightarrow> (\<exists>all_data. fst (fetch_prices lib pf sd ed symbols [] []) = Inr all_data
             \<and> pd_concat all_data = Inl e))"
  by (intro conjI stock_history_raises
      forex_history_raises
      crypto_history_raises
      index_history_raises
      sjc_raises
      btmc_raises
      vcb_raises
      fund_listing_raises
      search_funds_raises
      nav_report_raises
      top_holding_raises
      industry_holding_raises
      asset_holding_raises
      income_statement_raises
      balance_sheet_raises
      cash_flow_raises
      financial_ratios_raises
      dividend_history_raises
      company_info_raises
      fetch_raises
      calculate_returns_raises
      optimize_portfolio_raises
      full_portfolio_raises
      clean_prices_raises)

theorem exceptions_become_text_witness:
  "quote_history sample_vnstock [] ''VCI'' ''2024-01-01'' ''2024-12-31'' ''1D''
     = Inl (Exception ''Invalid symbol'')
   \<and> get_stock_history sample_vnstock [] ''2024-01-01'' ''2024-12-31'' ''1D''
     = Message ''Error fetching stock data: Invalid symbol''
   \<and> get_company_info sample_vnstock [] ''overview'' ''en''
     = Message ''Error fetching overview for : Invalid symbol''
   \<and> optimize_portfolio sample_vnstock sample_pypfopt [''AAA'', ''BBB''] ''2024-01-01''
       ''2024-12-31'' (1 / 2) ''sample_cov'' False
     = Message ''Error optimizing portfolio: at least one of the assets must have an expected return exceeding the risk-free rate''
   \<and> optimize_portfolio sample_vnstock infeasible_pypfopt [''AAA'', ''BBB''] ''2024-01-01''
       ''2024-12-31'' (1 / 50) ''sample_cov'' False
     = Message ''Optimization failed: Solver status: infeasible''"
proof -
  have q: "quote_history sample_vnstock [] ''VCI'' ''2024-01-01'' ''2024-12-31'' ''1D''
             = Inl (Exception ''Invalid symbol'')"
    by (simp add: sample_vnstock_def)
  have st: "stock sample_vnstock (upper []) ''VCI'' = Inl (Exception ''Invalid symbol'')"
    by (simp add: sample_vnstock_def upper_def)
  have c: "clean_prices sample_vnstock sample_pypfopt [''AAA'', ''BBB''] ''2024-01-01''
             ''2024-12-31'' = Inr (Cleaned sample_table)"
    by code_simp
  have mu: "mean_historical_return sample_pypfopt sample_table False = Inr sample_mu"
    by code_simp
  have cov: "covariance sample_pypfopt ''sample_cov'' sample_table = Inr [[1]]"
    by code_simp
  have ms: "max_sharpe sample_pypfopt sample_mu [[1]] (1 / 2)
     = Inl (Exception ''at least one of the assets must have an expected return exceeding the risk-free rate'')"
    by code_simp
  have c': "clean_prices sample_vnstock infeasible_pypfopt [''AAA'', ''BBB''] ''2024-01-01''
             ''2024-12-31'' = Inr (Cleaned sample_table)"
    by code_simp
  have mu': "mean_historical_return infeasible_pypfopt sample_table False = Inr sample_mu"
    by code_simp
  have cov': "covariance infeasible_pypfopt ''sample_cov'' sample_table = Inr [[1]]"
    by code_simp
  have ms': "max_sharpe infeasible_pypfopt sample_mu [[1]] (1 / 50)
     = Inl (OptimizationError ''Solver status: infeasible'')"
    by (simp add: infeasible_pypfopt_def)
  have 1: "get_stock_history sample_vnstock [] ''2024-01-01'' ''2024-12-31'' ''1D''
     = Message ''Error fetching stock data: Invalid symbol''"
    using exceptions_become_text [where lib = sample_vnstock and symbol = "[]"
        and sd = "''2024-01-01''" and ed = "''2024-12-31''" and interval = "''1D''"
        and e = "Exception ''Invalid symbol''"] q
    by simp
  have 2: "get_company_info sample_vnstock [] ''overview'' ''en''
     = Message ''Error fetching overview for : Invalid symbol''"
    using exceptions_become_text [where lib = sample_vnstock and symbol = "[]"
        and info_type = "''overview''" and lang = "''en''"
        and e = "Exception ''Invalid symbol''"] st
    by simp
  have 3: "optimize_portfolio sample_vnstock sample_pypfopt [''AAA'', ''BBB''] ''2024-01-01''
       ''2024-12-31'' (1 / 2) ''sample_cov'' False
     = Message ''Error optimizing portfolio: at least one of the assets must have an expected return exceeding the risk-free rate''"
    using exceptions_become_text [where lib = sample_vnstock and pf = sample_pypfopt
        and symbols = "[''AAA'', ''BBB'']" and sd = "''2024-01-01''" and ed = "''2024-12-31''"
        and rfr = "1 / 2" and m = "''sample_cov''" and lr = False
        and e = "Exception ''at least one of the assets must have an expected return exceeding the risk-free rate''"]
      c mu cov ms
    by simp
  have 4: "optimize_portfolio sample_vnstock infeasible_pypfopt [''AAA'', ''BBB''] ''2024-01-01''
       ''2024-12-31'' (1 / 50) ''sample_cov'' False
     = Message ''Optimization failed: Solver status: infeasible''"
    using exceptions_become_text [where lib = sample_vnstock and pf = infeasible_pypfopt
        and symbols = "[''AAA'', ''BBB'']" and sd = "''2024-01-01''" and ed = "''2024-12-31''"
        and rfr = "1 / 50" and m = "''sample_cov''" and lr = False
        and e = "OptimizationError ''Solver status: infeasible''"]
      c' mu' cov' ms'
    by simp
  from q 1 2 3 4 show ?thesis by simp
qed


text \<open>
  The claim as the specification states it (every exception is returned in the form
  \<^verbatim>\<open>Error <doing something>: <message>\<close>) fails for an \<^verbatim>\<open>OptimizationError\<close> in
  \<^verbatim>\<open>optimize_portfolio\<close>: the text begins with \<^verbatim>\<open>Optimization failed\<close>.
\<close>

theorem exceptions_become_text_counterexample:
  "optimize_portfolio sample_vnstock infeasible_pypfopt [''AAA'', ''BBB''] ''2024-01-01''
       ''2024-12-31'' (1 / 50) ''sample_cov'' False
     = Message ''Optimization failed: Solver status: infeasible''
   \<and> \<not> error_text (Message ''Optimization failed: Solver status: infeasible'')"
  by code_simp


subsection \<open>Rounding of weights\<close>

text \<open>
  The one step the tools themselves apply to the weights of the solver is
  \<^verbatim>\<open>round(v, 4)\<close>. Over the reals it moves a weight by at most half a unit of the last
  place and keeps it non-negative.
\<close>

lemma py_round_scaled:
  "\<bar>py_round x n * 10 ^ n - x * 10 ^ n\<bar> \<le> 1 / 2"
proof -
  define y where "y = x * 10 ^ n"
  define f where "f = \<lfloor>y\<rfloor>"
  define k where "k = (if y - of_int f < 1 / 2 then f else if 1 / 2 < y - of_int f then f + 1
                 else if even f then f else f + 1)"
  have b: "of_int f \<le> y" "y < of_int f + 1"
    unfolding f_def by linarith+
  have "py_round x n = of_int k / 10 ^ n"
    by (simp add: py_round_def Let_def k_def f_def y_def)
  then have "py_round x n * 10 ^ n = of_int k" by simp
  moreover have "\<bar>of_int k - y\<bar> \<le> 1 / 2"
    using b unfolding k_def by (auto simp: abs_if)
  ultimately show ?thesis by (simp add: y_def)
qed

lemma py_round_close: "\<bar>py_round x n - x\<bar> \<le> 1 / (2 * 10 ^ n)"
proof -
  have p: "(0::real) < 10 ^ n" by simp
  have "\<bar>py_round x n - x\<bar> * 10 ^ n = \<bar>(py_round x n - x) * 10 ^ n\<bar>"
    by (simp add: abs_mult)
  also have "\<dots> = \<bar>py_round x n * 10 ^ n - x * 10 ^ n\<bar>"
    by (simp add: left_diff_distrib)
  also have "\<dots> \<le> 1 / 2" by (rule py_round_scaled)
  finally have "\<bar>py_round x n - x\<bar> \<le> (1 / 2) / 10 ^ n"
    using p by (simp add: pos_le_divide_eq)
  then show ?thesis by simp
qed

lemma py_round_nonneg: "0 \<le> x \<Longrightarrow> 0 \<le> py_round x n"
proof -
  assume "0 \<le> x"
  then have "0 \<le> x * 10 ^ n" by simp
  then have "0 \<le> \<lfloor>x * 10 ^ n\<rfloor>" by simp
  then show ?thesis
    unfolding py_round_def Let_def by auto
qed

end
